theory Spec2Isabelle
  imports Complex_Main "HOL-Library.Word" "HOL-Library.Char_ord" "HOL-Library.List_Lexorder"
    "HOL-Library.Product_Lexorder"
begin

unbundle bit_operations_syntax

chapter \<open>Agentic Commerce Protocol demo: merchant and PSP services\<close>

section \<open>JavaScript numbers\<close>

text \<open>
  Money is held in JavaScript numbers that carry integers of minor units; they are modelled
  as \<^typ>\<open>int\<close>. The one place where the merchant leaves the integers is
  \<^verbatim>\<open>Math.round(subtotal * 0.10)\<close> in \<^verbatim>\<open>PricingCalculator.calculateTax\<close>: the literal
  \<^verbatim>\<open>0.10\<close> is the binary64 number nearest to one tenth, the product is rounded to
  binary64 (nearest, ties to even), and \<^verbatim>\<open>Math.round\<close> takes the result to the nearest
  integer, ties towards plus infinity. These three steps are modelled exactly, over the reals.
\<close>

definition round_half_even :: "real \<Rightarrow> int" where
  "round_half_even y =
     (let f = \<lfloor>y\<rfloor>; d = y - of_int f
      in if d < 1 / 2 then f else if 1 / 2 < d then f + 1 else if even f then f else f + 1)"

text \<open>
  \<open>binade n x\<close> is the exponent \<open>e\<close> with \<open>2\<^sup>e \<le> x < 2\<^sup>e\<^sup>+\<^sup>1\<close> of a positive \<open>x\<close>, found by
  halving or doubling at most \<open>n\<close> times (binary64 exponents lie between -1074 and 1023).
\<close>

fun binade :: "nat \<Rightarrow> real \<Rightarrow> int" where
  "binade 0 x = 0"
| "binade (Suc n) x =
     (if 2 \<le> x then binade n (x / 2) + 1
      else if x < 1 then binade n (2 * x) - 1
      else 0)"

text \<open>
  Rounding of a real to binary64: 53 significant bits, ties to even, gradual underflow below
  \<open>2\<^sup>-\<^sup>1\<^sup>0\<^sup>2\<^sup>2\<close>. Overflow to infinity (beyond \<open>2\<^sup>1\<^sup>0\<^sup>2\<^sup>4\<close>) is outside the model.
\<close>

definition double_round :: "real \<Rightarrow> real" where
  "double_round x =
     (if x = 0 then 0
      else let a = \<bar>x\<bar>;
               u = 2 powi (max (binade 1100 a) (- 1022) - 52)
           in sgn x * (u * of_int (round_half_even (a / u))))"

text \<open>The binary64 value of the literal \<^verbatim>\<open>0.10\<close>: \<open>3602879701896397 / 2\<^sup>5\<^sup>5\<close>.\<close>

definition double_0_10 :: real where
  "double_0_10 = 3602879701896397 / 36028797018963968"

text \<open>The JavaScript product \<^verbatim>\<open>x * y\<close> of two binary64 numbers.\<close>

definition number_times :: "real \<Rightarrow> real \<Rightarrow> real" where
  "number_times x y = double_round (x * y)"

text \<open>\<^verbatim>\<open>Math.round\<close>: the nearest integer, a tie going up.\<close>

definition Math_round :: "real \<Rightarrow> int" where
  "Math_round x = \<lfloor>x + 1 / 2\<rfloor>"

text \<open>
  Truthiness of an optional string (\<^verbatim>\<open>undefined\<close>, \<^verbatim>\<open>null\<close> and the empty string are
  falsy) and the \<^verbatim>\<open>a || b\<close> of two of them.
\<close>

definition truthy :: "string option \<Rightarrow> bool" where
  "truthy s = (case s of None \<Rightarrow> False | Some v \<Rightarrow> v \<noteq> [])"

definition or_else :: "string option \<Rightarrow> string option \<Rightarrow> string option" where
  "or_else a b = (if truthy a then a else b)"

text \<open>
  An \<^verbatim>\<open>async\<close> function returns a promise; \<^verbatim>\<open>await\<close> takes the value out of it.
\<close>

datatype 'a promise = Promise 'a

fun await :: "'a promise \<Rightarrow> 'a" where
  "await (Promise x) = x"

section \<open>JSON values, \<^verbatim>\<open>JSON.stringify\<close> and SHA-256\<close>

text \<open>
  A parsed request body. An object is the list of its properties in enumeration order, which
  for keys that are not array indices is the order of the request text; its keys are distinct.
  Strings are sequences of UTF-8 bytes, numbers are integers. No string holds the character
  \<open>U+0000\<close>, which the databases of the two services do not store.
\<close>

datatype json =
  JNull | JBool bool | JNumber int | JString string | JArray "json list"
| JObject "(string \<times> json) list"

definition digit_char :: "nat \<Rightarrow> char" where
  "digit_char n = (''0123456789'' ! n)"

fun dec_digits :: "nat \<Rightarrow> string" where
  "dec_digits n = (if n < 10 then [digit_char n] else dec_digits (n div 10) @ [digit_char (n mod 10)])"

declare dec_digits.simps [simp del]

definition show_int :: "int \<Rightarrow> string" where
  "show_int i = (if i < 0 then CHR ''-'' # dec_digits (nat (- i)) else dec_digits (nat i))"

definition hex_digit :: "nat \<Rightarrow> char" where
  "hex_digit n = (''0123456789abcdef'' ! n)"

text \<open>
  The escapes of \<^verbatim>\<open>JSON.stringify\<close>: the quotation mark, the backslash, and the control
  characters below \<open>0x20\<close>.
\<close>

definition escape_char :: "char \<Rightarrow> string" where
  "escape_char c =
     (let n = (of_char c :: nat)
      in if n = 0x22 then [CHR 0x5C, CHR 0x22]
         else if n = 0x5C then [CHR 0x5C, CHR 0x5C]
         else if n = 0x08 then [CHR 0x5C, CHR ''b'']
         else if n = 0x09 then [CHR 0x5C, CHR ''t'']
         else if n = 0x0A then [CHR 0x5C, CHR ''n'']
         else if n = 0x0C then [CHR 0x5C, CHR ''f'']
         else if n = 0x0D then [CHR 0x5C, CHR ''r'']
         else if n < 0x20
           then [CHR 0x5C, CHR ''u'', CHR ''0'', CHR ''0'', hex_digit (n div 16), hex_digit (n mod 16)]
         else [c])"

definition quote :: "string \<Rightarrow> string" where
  "quote s = CHR 0x22 # concat (map escape_char s) @ [CHR 0x22]"

fun join_comma :: "string list \<Rightarrow> string" where
  "join_comma [] = []"
| "join_comma [x] = x"
| "join_comma (x # y # zs) = x @ '','' @ join_comma (y # zs)"

fun JSON_stringify :: "json \<Rightarrow> string" where
  "JSON_stringify JNull = ''null''"
| "JSON_stringify (JBool b) = (if b then ''true'' else ''false'')"
| "JSON_stringify (JNumber i) = show_int i"
| "JSON_stringify (JString s) = quote s"
| "JSON_stringify (JArray xs) = ''['' @ join_comma (map JSON_stringify xs) @ '']''"
| "JSON_stringify (JObject kvs) =
     ''{'' @ join_comma (map (\<lambda>kv. quote (fst kv) @ '':'' @ JSON_stringify (snd kv)) kvs) @ ''}''"

text \<open>
  SHA-256 (FIPS 180-4) on the bytes of a string, with the digest in lower-case hexadecimal, as
  \<^verbatim>\<open>crypto.createHash('sha256').update(s).digest('hex')\<close> returns it. The round constants
  and the initial hash value are written in decimal.
\<close>

type_synonym w32 = "32 word"

definition rotr :: "nat \<Rightarrow> w32 \<Rightarrow> w32" where
  "rotr n x = (drop_bit n x) OR (push_bit (32 - n) x)"

definition Ch :: "w32 \<Rightarrow> w32 \<Rightarrow> w32 \<Rightarrow> w32" where
  "Ch x y z = (x AND y) XOR (NOT x AND z)"

definition Maj :: "w32 \<Rightarrow> w32 \<Rightarrow> w32 \<Rightarrow> w32" where
  "Maj x y z = (x AND y) XOR (x AND z) XOR (y AND z)"

definition Sigma0 :: "w32 \<Rightarrow> w32" where
  "Sigma0 x = rotr 2 x XOR rotr 13 x XOR rotr 22 x"

definition Sigma1 :: "w32 \<Rightarrow> w32" where
  "Sigma1 x = rotr 6 x XOR rotr 11 x XOR rotr 25 x"

definition sigma0 :: "w32 \<Rightarrow> w32" where
  "sigma0 x = rotr 7 x XOR rotr 18 x XOR drop_bit 3 x"

definition sigma1 :: "w32 \<Rightarrow> w32" where
  "sigma1 x = rotr 17 x XOR rotr 19 x XOR drop_bit 10 x"

definition sha256_K :: "w32 list" where
  "sha256_K = [
    1116352408, 1899447441, 3049323471, 3921009573, 961987163, 1508970993, 2453635748, 2870763221,
    3624381080, 310598401, 607225278, 1426881987, 1925078388, 2162078206, 2614888103, 3248222580,
    3835390401, 4022224774, 264347078, 604807628, 770255983, 1249150122, 1555081692, 1996064986,
    2554220882, 2821834349, 2952996808, 3210313671, 3336571891, 3584528711, 113926993, 338241895,
    666307205, 773529912, 1294757372, 1396182291, 1695183700, 1986661051, 2177026350, 2456956037,
    2730485921, 2820302411, 3259730800, 3345764771, 3516065817, 3600352804, 4094571909, 275423344,
    430227734, 506948616, 659060556, 883997877, 958139571, 1322822218, 1537002063, 1747873779,
    1955562222, 2024104815, 2227730452, 2361852424, 2428436474, 2756734187, 3204031479, 3329325298]"

definition sha256_H0 :: "w32 list" where
  "sha256_H0 = [1779033703, 3144134277, 1013904242, 2773480762,
                1359893119, 2600822924, 528734635, 1541459225]"

text \<open>The message schedule; the list holds the words computed so far, the newest first.\<close>

fun schedule :: "nat \<Rightarrow> w32 list \<Rightarrow> w32 list" where
  "schedule 0 ws = ws"
| "schedule (Suc n) ws =
     schedule n ((sigma1 (ws ! 1) + ws ! 6 + sigma0 (ws ! 14) + ws ! 15) # ws)"

fun round_step :: "w32 list \<Rightarrow> w32 \<times> w32 \<Rightarrow> w32 list" where
  "round_step [a, b, c, d, e, f, g, h] (k, w) =
     (let t1 = h + Sigma1 e + Ch e f g + k + w;
          t2 = Sigma0 a + Maj a b c
      in [t1 + t2, a, b, c, d + t1, e, f, g])"
| "round_step s _ = s"

definition compress :: "w32 list \<Rightarrow> w32 list \<Rightarrow> w32 list" where
  "compress hs block =
     map2 (+) hs (foldl round_step hs (zip sha256_K (rev (schedule 48 (rev block)))))"

fun be32 :: "8 word list \<Rightarrow> w32" where
  "be32 [a, b, c, d] =
     push_bit 24 (ucast a) OR push_bit 16 (ucast b) OR push_bit 8 (ucast c) OR ucast d"
| "be32 _ = 0"

fun chunks :: "nat \<Rightarrow> nat \<Rightarrow> 'a list \<Rightarrow> 'a list list" where
  "chunks 0 k xs = []"
| "chunks (Suc n) k xs = take k xs # chunks n k (drop k xs)"

definition pad :: "8 word list \<Rightarrow> 8 word list" where
  "pad m =
     (let l = length m;
          z = (55 + 64 - l mod 64) mod 64;
          bits = (of_nat (8 * l) :: 64 word)
      in m @ [0x80] @ replicate z 0 @ map (\<lambda>i. ucast (drop_bit (8 * (7 - i)) bits)) [0..<8])"

definition hex32 :: "w32 \<Rightarrow> string" where
  "hex32 w = map (\<lambda>i. hex_digit (unat (drop_bit (4 * (7 - i)) w AND 15))) [0..<8]"

definition sha256 :: "string \<Rightarrow> string" where
  "sha256 s =
     (let bytes = pad (map (\<lambda>c. of_nat (of_char c)) s);
          blocks = map (\<lambda>b. map be32 (chunks 16 4 b)) (chunks (length bytes div 64) 64 bytes)
      in concat (map hex32 (foldl compress sha256_H0 blocks)))"

section \<open>Merchant: data model (models/types.ts, models/product.ts, models/database.ts)\<close>

record address =
  addr_name :: string
  line_one :: string
  line_two :: "string option"
  city :: string
  addr_state :: string
  country :: string
  postal_code :: string

record buyer =
  first_name :: "string option"
  last_name :: "string option"
  email :: "string option"
  phone_number :: "string option"

record item =
  item_id :: string
  quantity :: int

text \<open>The core fields of a product, the ones the checkout logic reads.\<close>

record product =
  product_id :: string
  base_price :: int
  available_quantity :: int
  requires_shipping :: bool

record line_item_calculation =
  calc_base_amount :: int
  calc_discount :: int
  calc_subtotal :: int
  calc_tax :: int
  calc_total :: int

record line_item =
  li_id :: string
  li_item :: item
  base_amount :: int
  discount :: int
  subtotal :: int
  tax :: int
  total :: int

datatype total_type =
  Items_base_amount | Items_discount | Subtotal | Discount | Fulfillment | Tax | Fee | Total

record total_entry =
  ttype :: total_type
  display_text :: string
  amount :: int

datatype fulfillment_type = Shipping | Digital

text \<open>Delivery times are kept as milliseconds since the epoch.\<close>

record fulfillment_option =
  fo_type :: fulfillment_type
  fo_id :: string
  title :: string
  subtitle :: "string option"
  carrier :: "string option"
  earliest_delivery_time :: "int option"
  latest_delivery_time :: "int option"
  fo_subtotal :: int
  fo_tax :: int
  fo_total :: int

datatype message_type = Info | Error

record message =
  msg_type :: message_type
  code :: "string option"
  param :: "string option"
  content_type :: string
  content :: string

record link =
  link_type :: string
  url :: string

record payment_provider =
  provider :: string
  supported_payment_methods :: "string list"

record order =
  order_id :: string
  checkout_session_id :: string
  permalink_url :: string

datatype checkout_status =
  not_ready_for_payment | ready_for_payment | completed | canceled | in_progress

record checkout_session =
  cs_id :: string
  cs_buyer :: "buyer option"
  cs_payment_provider :: payment_provider
  status :: checkout_status
  currency :: string
  line_items :: "line_item list"
  fulfillment_address :: "address option"
  fulfillment_options :: "fulfillment_option list"
  fulfillment_option_id :: "string option"
  totals :: "total_entry list"
  messages :: "message list"
  links :: "link list"
  cs_order :: "order option"

record checkout_session_create_request =
  create_items :: "item list"
  create_buyer :: "buyer option"
  create_fulfillment_address :: "address option"

record checkout_session_update_request =
  update_buyer :: "buyer option"
  update_items :: "item list option"
  update_fulfillment_address :: "address option"
  update_fulfillment_option_id :: "string option"

record payment_data =
  token :: string
  pd_provider :: string
  billing_address :: "address option"

record checkout_session_complete_request =
  complete_buyer :: "buyer option"
  complete_payment_data :: payment_data

text \<open>
  The rows of the merchant's tables. The address column holds the JSON text of the address;
  it is kept as the address it parses back to.
\<close>

record db_checkout_session =
  row_id :: string
  buyer_first_name :: "string option"
  buyer_last_name :: "string option"
  buyer_email :: "string option"
  buyer_phone_number :: "string option"
  row_status :: checkout_status
  row_currency :: string
  row_fulfillment_address :: "address option"
  row_fulfillment_option_id :: "string option"
  row_order_id :: "string option"

record db_order =
  db_order_id :: string
  db_checkout_session_id :: string
  db_permalink_url :: string
  payment_token :: string
  db_payment_provider :: string
  db_billing_address :: "address option"

text \<open>
  The merchant's database: sessions and orders by primary key, line items as the rows of the
  table in insertion order, each with the id of its session.
\<close>

record merchant_db =
  products :: "string \<rightharpoonup> product"
  checkout_sessions :: "string \<rightharpoonup> db_checkout_session"
  line_items_table :: "(string \<times> line_item) list"
  orders :: "string \<rightharpoonup> db_order"

section \<open>Merchant: PricingCalculator\<close>

definition calculateLineItem :: "product \<Rightarrow> int \<Rightarrow> line_item_calculation" where
  "calculateLineItem p q =
     (let base_amount = base_price p * q;
          discount = 0;
          subtotal = base_amount - discount;
          tax = 0;
          total = subtotal + tax
      in \<lparr>calc_base_amount = base_amount, calc_discount = discount, calc_subtotal = subtotal,
          calc_tax = tax, calc_total = total\<rparr>)"

text \<open>The id of a line item is \<^verbatim>\<open>li_\<close> followed by a fresh UUID, here the argument \<open>uuid\<close>.\<close>

definition buildLineItem :: "string \<Rightarrow> product \<Rightarrow> item \<Rightarrow> line_item" where
  "buildLineItem uuid p it =
     (let calculation = calculateLineItem p (quantity it)
      in \<lparr>li_id = ''li_'' @ uuid,
          li_item = \<lparr>item_id = item_id it, quantity = quantity it\<rparr>,
          base_amount = calc_base_amount calculation,
          discount = calc_discount calculation,
          subtotal = calc_subtotal calculation,
          tax = calc_tax calculation,
          total = calc_total calculation\<rparr>)"

definition calculateTax :: "int \<Rightarrow> address option \<Rightarrow> int" where
  "calculateTax sub addr =
     (case addr of
        None \<Rightarrow> 0
      | Some a \<Rightarrow>
          if addr_state a = ''CA'' then Math_round (number_times (of_int sub) double_0_10)
          else 0)"

definition calculateTotals :: "line_item list \<Rightarrow> int \<Rightarrow> address option \<Rightarrow> total_entry list" where
  "calculateTotals lineItems fulfillmentCost addr =
     (let items_base_amount = foldl (\<lambda>sum it. sum + base_amount it) 0 lineItems;
          items_discount = foldl (\<lambda>sum it. sum + discount it) 0 lineItems;
          sub = items_base_amount - items_discount;
          taxable_amount = sub + fulfillmentCost;
          tx = calculateTax taxable_amount addr;
          tot = sub + fulfillmentCost + tx
      in [\<lparr>ttype = Items_base_amount, display_text = ''Items Subtotal'', amount = items_base_amount\<rparr>]
         @ (if 0 < items_discount
            then [\<lparr>ttype = Items_discount, display_text = ''Discount'', amount = - items_discount\<rparr>]
            else [])
         @ [\<lparr>ttype = Subtotal, display_text = ''Subtotal'', amount = sub\<rparr>]
         @ (if 0 < fulfillmentCost
            then [\<lparr>ttype = Fulfillment, display_text = ''Shipping'', amount = fulfillmentCost\<rparr>]
            else [])
         @ (if 0 < tx
            then [\<lparr>ttype = Tax, display_text = ''Tax'', amount = tx\<rparr>]
            else [])
         @ [\<lparr>ttype = Total, display_text = ''Total'', amount = tot\<rparr>])"

text \<open>
  \<^verbatim>\<open>totals.find(t => t.type === type)?.amount || 0\<close>, as \<^verbatim>\<open>completeSession\<close> reads the
  total to charge.
\<close>

definition total_amount :: "total_type \<Rightarrow> total_entry list \<Rightarrow> int" where
  "total_amount ty ts = (case find (\<lambda>t. ttype t = ty) ts of None \<Rightarrow> 0 | Some t \<Rightarrow> amount t)"

section \<open>Merchant: FulfillmentManager\<close>

definition day_ms :: int where
  "day_ms = 86400000"

definition generateOptions :: "int \<Rightarrow> bool \<Rightarrow> address option \<Rightarrow> fulfillment_option list" where
  "generateOptions now requiresShipping addr =
     (if requiresShipping then
        (case addr of
           None \<Rightarrow> []
         | Some a \<Rightarrow>
             (let standardShippingCost = 500;
                  standardTax = calculateTax standardShippingCost addr;
                  standardTotal = standardShippingCost + standardTax;
                  expressShippingCost = 1500;
                  expressTax = calculateTax expressShippingCost addr;
                  expressTotal = expressShippingCost + expressTax
              in [\<lparr>fo_type = Shipping, fo_id = ''standard_shipping'', title = ''Standard Shipping'',
                   subtitle = Some ''4-5 business days'', carrier = Some ''USPS'',
                   earliest_delivery_time = Some (now + 4 * day_ms),
                   latest_delivery_time = Some (now + 5 * day_ms),
                   fo_subtotal = standardShippingCost, fo_tax = standardTax,
                   fo_total = standardTotal\<rparr>,
                  \<lparr>fo_type = Shipping, fo_id = ''express_shipping'', title = ''Express Shipping'',
                   subtitle = Some ''1-2 business days'', carrier = Some ''FedEx'',
                   earliest_delivery_time = Some (now + 1 * day_ms),
                   latest_delivery_time = Some (now + 2 * day_ms),
                   fo_subtotal = expressShippingCost, fo_tax = expressTax,
                   fo_total = expressTotal\<rparr>]))
      else
        [\<lparr>fo_type = Digital, fo_id = ''digital_delivery'', title = ''Digital Delivery'',
          subtitle = Some ''Instant access'', carrier = None,
          earliest_delivery_time = None, latest_delivery_time = None,
          fo_subtotal = 0, fo_tax = 0, fo_total = 0\<rparr>])"

definition selectDefaultOption :: "fulfillment_option list \<Rightarrow> string option" where
  "selectDefaultOption options = (case options of [] \<Rightarrow> None | opt # _ \<Rightarrow> Some (fo_id opt))"

definition getFulfillmentCost :: "string option \<Rightarrow> fulfillment_option list \<Rightarrow> int" where
  "getFulfillmentCost optionId options =
     (if \<not> truthy optionId then 0
      else case find (\<lambda>opt. Some (fo_id opt) = optionId) options of
             None \<Rightarrow> 0
           | Some opt \<Rightarrow> fo_subtotal opt)"

definition validateOption :: "string \<Rightarrow> fulfillment_option list \<Rightarrow> bool" where
  "validateOption optionId options = list_ex (\<lambda>opt. fo_id opt = optionId) options"

section \<open>HTTP responses\<close>

text \<open>
  A response is its status, the headers set on it and its JSON body. A body is either the
  payload of the handler or an error object \<^verbatim>\<open>{type, code, message, param?}\<close>.
\<close>

definition error_object :: "string \<Rightarrow> string \<Rightarrow> string \<Rightarrow> string option \<Rightarrow> json" where
  "error_object ty cd msg prm =
     JObject ([(''type'', JString ty), (''code'', JString cd), (''message'', JString msg)]
              @ (case prm of None \<Rightarrow> [] | Some p \<Rightarrow> [(''param'', JString p)]))"

datatype 'a body = Payload 'a | ErrorBody json

record 'a response =
  resp_status :: int
  resp_headers :: "(string \<times> string) list"
  resp_body :: "'a body"

section \<open>Merchant: ProductCatalog\<close>

text \<open>Both methods are \<^verbatim>\<open>async\<close>: they return promises.\<close>

definition getProduct :: "merchant_db \<Rightarrow> string \<Rightarrow> product option promise" where
  "getProduct db pid = Promise (products db pid)"

definition checkAvailability :: "merchant_db \<Rightarrow> string \<Rightarrow> int \<Rightarrow> bool promise" where
  "checkAvailability db pid q =
     Promise (case await (getProduct db pid) of
                None \<Rightarrow> False
              | Some p \<Rightarrow> q \<le> available_quantity p)"

text \<open>
  Reading \<^verbatim>\<open>requires_shipping\<close> off a promise that has not been awaited: a promise is an
  object, so the optional chaining \<^verbatim>\<open>product?.requires_shipping\<close> does not short-circuit,
  and the object has no such property; the read yields \<^verbatim>\<open>undefined\<close>, whatever the promise
  resolves to.
\<close>

definition promise_requires_shipping :: "product option promise \<Rightarrow> bool option" where
  "promise_requires_shipping p = None"

section \<open>Merchant: PaymentService (the client of the PSP)\<close>

datatype payment_intent_status = Pending | Completed | Failed

record process_payment_request =
  shared_payment_token :: string
  pp_amount :: int
  pp_currency :: string

record payment_intent_response =
  pi_id :: string
  pi_status :: payment_intent_status
  pi_amount :: int
  pi_currency :: string
  pi_vault_token_id :: string
  pi_created :: int
  pi_completed_at :: "int option"
  pi_metadata :: json

text \<open>
  \<^verbatim>\<open>processPayment\<close> posts the request to the PSP and either returns the payment intent of
  the response or throws the status and body of a response that is not ok. The PSP is
  another service; the merchant sees it as a function of the request.
\<close>

type_synonym psp_client = "process_payment_request \<Rightarrow> (int \<times> json) + payment_intent_response"

section \<open>Merchant: SessionManager\<close>

datatype session_error =
  Session_not_found
| Cannot_update_completed_or_canceled_session
| Session_already_completed
| Cannot_complete_canceled_session
| Session_not_ready_for_payment
| Payment_processing_failed payment_intent_status
| Psp_rejected int json
| Database_error
| Failed_to_retrieve_session
| Cannot_cancel_completed_session

record build_result =
  br_lineItems :: "line_item list"
  br_errors :: "message list"
  br_requiresShipping :: bool

text \<open>
  The loop of \<^verbatim>\<open>validateAndBuildLineItems\<close>. \<open>uuid k\<close> is the UUID drawn for the line item
  built when \<open>k\<close> line items have been built already.
\<close>

fun validateAndBuildLineItems_loop ::
  "merchant_db \<Rightarrow> (nat \<Rightarrow> string) \<Rightarrow> item list \<Rightarrow> build_result \<Rightarrow> build_result" where
  "validateAndBuildLineItems_loop db uuid [] acc = acc"
| "validateAndBuildLineItems_loop db uuid (it # rest) acc =
     (case await (getProduct db (item_id it)) of
        None \<Rightarrow>
          validateAndBuildLineItems_loop db uuid rest
            (acc\<lparr>br_errors := br_errors acc @
               [\<lparr>msg_type = Error, code = Some ''invalid'',
                 param = Some (''$.items[?(@.id=='' @ [CHR 0x27] @ item_id it @ [CHR 0x27] @ '')]''),
                 content_type = ''plain'',
                 content = ''Product '' @ item_id it @ '' not found''\<rparr>]\<rparr>)
      | Some p \<Rightarrow>
          if \<not> await (checkAvailability db (item_id it) (quantity it)) then
            validateAndBuildLineItems_loop db uuid rest
              (acc\<lparr>br_errors := br_errors acc @
                 [\<lparr>msg_type = Error, code = Some ''out_of_stock'',
                   param = Some (''$.items[?(@.id=='' @ [CHR 0x27] @ item_id it @ [CHR 0x27] @ '')]''),
                   content_type = ''plain'',
                   content = ''Product '' @ item_id it
                     @ '' is out of stock or insufficient quantity available''\<rparr>]\<rparr>)
          else
            validateAndBuildLineItems_loop db uuid rest
              (acc\<lparr>br_lineItems := br_lineItems acc
                     @ [buildLineItem (uuid (length (br_lineItems acc))) p it],
                   br_requiresShipping := (requires_shipping p \<or> br_requiresShipping acc)\<rparr>))"

definition validateAndBuildLineItems ::
  "merchant_db \<Rightarrow> (nat \<Rightarrow> string) \<Rightarrow> item list \<Rightarrow> build_result" where
  "validateAndBuildLineItems db uuid items =
     validateAndBuildLineItems_loop db uuid items
       \<lparr>br_lineItems = [], br_errors = [], br_requiresShipping = False\<rparr>"

text \<open>
  \<^verbatim>\<open>checkIfRequiresShipping\<close> calls \<^verbatim>\<open>getProduct\<close> without \<^verbatim>\<open>await\<close> and reads the property
  off the promise: \<^verbatim>\<open>product?.requires_shipping || false\<close>.
\<close>

definition checkIfRequiresShipping :: "merchant_db \<Rightarrow> line_item list \<Rightarrow> bool" where
  "checkIfRequiresShipping db lineItems =
     list_ex (\<lambda>li. let product = getProduct db (item_id (li_item li))
                    in case promise_requires_shipping product of
                         None \<Rightarrow> False
                       | Some b \<Rightarrow> b) lineItems"

definition determineStatus ::
  "line_item list \<Rightarrow> bool \<Rightarrow> address option \<Rightarrow> string option \<Rightarrow> checkout_status" where
  "determineStatus lineItems requiresShipping addr fulfillmentOptionId =
     (if length lineItems = 0 then not_ready_for_payment
      else if requiresShipping \<and> (addr = None \<or> \<not> truthy fulfillmentOptionId)
        then not_ready_for_payment
      else ready_for_payment)"

definition generateLinks :: "link list" where
  "generateLinks =
     [\<lparr>link_type = ''terms_of_use'', url = ''https://merchant.example.com/terms''\<rparr>,
      \<lparr>link_type = ''privacy_policy'', url = ''https://merchant.example.com/privacy''\<rparr>]"

definition getPaymentProvider :: payment_provider where
  "getPaymentProvider = \<lparr>provider = ''stripe'', supported_payment_methods = [''card'']\<rparr>"

definition generateMessages :: "checkout_status \<Rightarrow> bool \<Rightarrow> address option \<Rightarrow> message list" where
  "generateMessages st requiresShipping addr =
     (if st = not_ready_for_payment \<and> requiresShipping \<and> addr = None
      then [\<lparr>msg_type = Info, code = None, param = Some ''$.fulfillment_address'',
             content_type = ''plain'',
             content = ''Please provide a shipping address to continue''\<rparr>]
      else [])"

definition buildErrorSession ::
  "string \<Rightarrow> buyer option \<Rightarrow> address option \<Rightarrow> message list \<Rightarrow> checkout_session" where
  "buildErrorSession sessionId b addr errors =
     \<lparr>cs_id = sessionId, cs_buyer = b, cs_payment_provider = getPaymentProvider,
      status = not_ready_for_payment, currency = ''usd'', line_items = [],
      fulfillment_address = addr, fulfillment_options = [], fulfillment_option_id = None,
      totals = [], messages = errors, links = generateLinks, cs_order = None\<rparr>"

text \<open>
  \<^verbatim>\<open>saveSession\<close>: one transaction that upserts the row of the session, deletes its line
  items and inserts the new ones. Its statements are taken to succeed (the line item ids are
  fresh UUIDs, the products of the line items exist and the values fit their columns).
\<close>

definition saveSession :: "checkout_session \<Rightarrow> merchant_db \<Rightarrow> merchant_db" where
  "saveSession session db =
     db\<lparr>checkout_sessions := (checkout_sessions db)(cs_id session \<mapsto>
           \<lparr>row_id = cs_id session,
            buyer_first_name = Option.bind (cs_buyer session) first_name,
            buyer_last_name = Option.bind (cs_buyer session) last_name,
            buyer_email = Option.bind (cs_buyer session) email,
            buyer_phone_number = Option.bind (cs_buyer session) phone_number,
            row_status = status session,
            row_currency = currency session,
            row_fulfillment_address = fulfillment_address session,
            row_fulfillment_option_id = fulfillment_option_id session,
            row_order_id = map_option order_id (cs_order session)\<rparr>),
        line_items_table :=
          filter (\<lambda>r. fst r \<noteq> cs_id session) (line_items_table db)
          @ map (\<lambda>li. (cs_id session, li)) (line_items session)\<rparr>"

definition getSession :: "int \<Rightarrow> string \<Rightarrow> merchant_db \<Rightarrow> checkout_session option" where
  "getSession now sessionId db =
     (case checkout_sessions db sessionId of
        None \<Rightarrow> None
      | Some sessionRow \<Rightarrow>
          (let lineItems = map snd (filter (\<lambda>r. fst r = sessionId) (line_items_table db));
               fulfillmentAddress = row_fulfillment_address sessionRow;
               b = (if truthy (buyer_email sessionRow)
                    then Some \<lparr>first_name = buyer_first_name sessionRow,
                               last_name = buyer_last_name sessionRow,
                               email = buyer_email sessionRow,
                               phone_number = buyer_phone_number sessionRow\<rparr>
                    else None);
               requiresShipping = checkIfRequiresShipping db lineItems;
               fulfillmentOptions = generateOptions now requiresShipping fulfillmentAddress;
               fulfillmentCost =
                 getFulfillmentCost (row_fulfillment_option_id sessionRow) fulfillmentOptions;
               tots = calculateTotals lineItems fulfillmentCost fulfillmentAddress;
               ord = (if truthy (row_order_id sessionRow)
                      then (case orders db (the (row_order_id sessionRow)) of
                              None \<Rightarrow> None
                            | Some orderRow \<Rightarrow>
                                Some \<lparr>order_id = db_order_id orderRow,
                                      checkout_session_id = db_checkout_session_id orderRow,
                                      permalink_url = db_permalink_url orderRow\<rparr>)
                      else None)
           in Some \<lparr>cs_id = row_id sessionRow, cs_buyer = b,
                    cs_payment_provider = getPaymentProvider,
                    status = row_status sessionRow, currency = row_currency sessionRow,
                    line_items = lineItems, fulfillment_address = fulfillmentAddress,
                    fulfillment_options = fulfillmentOptions,
                    fulfillment_option_id = row_fulfillment_option_id sessionRow,
                    totals = tots,
                    messages =
                      generateMessages (row_status sessionRow) requiresShipping fulfillmentAddress,
                    links = generateLinks, cs_order = ord\<rparr>))"

text \<open>
  \<^verbatim>\<open>createSession\<close>; \<open>sessionUuid\<close> is the UUID drawn for the id of the session.
\<close>

definition createSession ::
  "string \<Rightarrow> (nat \<Rightarrow> string) \<Rightarrow> int \<Rightarrow> checkout_session_create_request \<Rightarrow> merchant_db
     \<Rightarrow> checkout_session \<times> merchant_db" where
  "createSession sessionUuid uuid now request db =
     (let sessionId = ''cs_'' @ sessionUuid;
          r = validateAndBuildLineItems db uuid (create_items request)
      in if 0 < length (br_errors r) then
           (buildErrorSession sessionId (create_buyer request)
              (create_fulfillment_address request) (br_errors r), db)
         else
           (let lineItems = br_lineItems r;
                requiresShipping = br_requiresShipping r;
                fulfillmentOptions =
                  generateOptions now requiresShipping (create_fulfillment_address request);
                fulfillmentOptionId = selectDefaultOption fulfillmentOptions;
                fulfillmentCost = getFulfillmentCost fulfillmentOptionId fulfillmentOptions;
                tots = calculateTotals lineItems fulfillmentCost (create_fulfillment_address request);
                st = determineStatus lineItems requiresShipping
                       (create_fulfillment_address request) fulfillmentOptionId;
                session =
                  \<lparr>cs_id = sessionId, cs_buyer = create_buyer request,
                   cs_payment_provider = getPaymentProvider, status = st, currency = ''usd'',
                   line_items = lineItems,
                   fulfillment_address = create_fulfillment_address request,
                   fulfillment_options = fulfillmentOptions,
                   fulfillment_option_id = fulfillmentOptionId, totals = tots,
                   messages = generateMessages st requiresShipping
                                (create_fulfillment_address request),
                   links = generateLinks, cs_order = None\<rparr>
            in (session, saveSession session db)))"

definition first_some :: "'a option \<Rightarrow> 'a option \<Rightarrow> 'a option" where
  "first_some a b = (case a of Some x \<Rightarrow> Some x | None \<Rightarrow> b)"

definition updateSession ::
  "(nat \<Rightarrow> string) \<Rightarrow> int \<Rightarrow> string \<Rightarrow> checkout_session_update_request \<Rightarrow> merchant_db
     \<Rightarrow> (session_error + checkout_session) \<times> merchant_db" where
  "updateSession uuid now sessionId request db =
     (case getSession now sessionId db of
        None \<Rightarrow> (Inl Session_not_found, db)
      | Some existingSession \<Rightarrow>
          if status existingSession = completed \<or> status existingSession = canceled
          then (Inl Cannot_update_completed_or_canceled_session, db)
          else
            (let b = first_some (update_buyer request) (cs_buyer existingSession);
                 fulfillmentAddress =
                   first_some (update_fulfillment_address request)
                     (fulfillment_address existingSession);
                 r = (case update_items request of
                        None \<Rightarrow>
                          \<lparr>br_lineItems = line_items existingSession, br_errors = [],
                           br_requiresShipping =
                             checkIfRequiresShipping db (line_items existingSession)\<rparr>
                      | Some items \<Rightarrow> validateAndBuildLineItems db uuid items)
             in if 0 < length (br_errors r) then
                  (Inr (buildErrorSession sessionId (update_buyer request)
                          (update_fulfillment_address request) (br_errors r)), db)
                else
                  (let lineItems = br_lineItems r;
                       requiresShipping = br_requiresShipping r;
                       fulfillmentOptions =
                         generateOptions now requiresShipping fulfillmentAddress;
                       requested =
                         or_else (update_fulfillment_option_id request)
                           (fulfillment_option_id existingSession);
                       validated =
                         (if truthy requested
                             \<and> \<not> validateOption (the requested) fulfillmentOptions
                          then selectDefaultOption fulfillmentOptions
                          else requested);
                       fulfillmentOptionId =
                         (if \<not> truthy validated \<and> 0 < length fulfillmentOptions
                          then selectDefaultOption fulfillmentOptions
                          else validated);
                       fulfillmentCost = getFulfillmentCost fulfillmentOptionId fulfillmentOptions;
                       tots = calculateTotals lineItems fulfillmentCost fulfillmentAddress;
                       st = determineStatus lineItems requiresShipping fulfillmentAddress
                              fulfillmentOptionId;
                       session =
                         \<lparr>cs_id = sessionId, cs_buyer = b,
                          cs_payment_provider = getPaymentProvider, status = st,
                          currency = ''usd'', line_items = lineItems,
                          fulfillment_address = fulfillmentAddress,
                          fulfillment_options = fulfillmentOptions,
                          fulfillment_option_id = fulfillmentOptionId, totals = tots,
                          messages = generateMessages st requiresShipping fulfillmentAddress,
                          links = generateLinks, cs_order = None\<rparr>
                   in (Inr session, saveSession session db))))"

text \<open>
  A value assigned to a column of type \<^verbatim>\<open>VARCHAR(n)\<close>: a string of more than \<open>n\<close> characters
  is cut to \<open>n\<close> characters if what is cut off is spaces only, and makes the statement raise
  otherwise. \<^verbatim>\<open>undefined\<close> is stored as \<^verbatim>\<open>NULL\<close>.
\<close>

definition varchar :: "nat \<Rightarrow> string \<Rightarrow> string option" where
  "varchar n s =
     (if length s \<le> n then Some s
      else if list_all (\<lambda>c. c = CHR '' '') (drop n s) then Some (take n s)
      else None)"

definition varchar_null :: "nat \<Rightarrow> string option \<Rightarrow> string option option" where
  "varchar_null n v = (case v of None \<Rightarrow> Some None | Some s \<Rightarrow> map_option Some (varchar n s))"

text \<open>
  The two statements of the transaction of \<^verbatim>\<open>completeSession\<close>. The insert raises when the
  primary key of the order is taken, when the session it references is missing, or when the
  payment provider does not fit its column \<^verbatim>\<open>VARCHAR(50)\<close>. The update changes the row of
  the session if there is one, and raises when a field of the buyer does not fit its column
  \<^verbatim>\<open>VARCHAR(255)\<close>; the buyer of the request is not checked before. (The ids fit their
  columns: the id of the order is \<^verbatim>\<open>order_\<close> and a UUID, that of the session is the key of a
  row.)
\<close>

definition insert_order :: "db_order \<Rightarrow> merchant_db \<Rightarrow> merchant_db option" where
  "insert_order row db =
     (if orders db (db_order_id row) \<noteq> None
         \<or> checkout_sessions db (db_checkout_session_id row) = None
      then None
      else case varchar 50 (db_payment_provider row) of
             None \<Rightarrow> None
           | Some paymentProvider \<Rightarrow>
               Some (db\<lparr>orders := (orders db)(db_order_id row \<mapsto>
                          row\<lparr>db_payment_provider := paymentProvider\<rparr>)\<rparr>))"

definition update_session_completed ::
  "string \<Rightarrow> string \<Rightarrow> buyer option \<Rightarrow> merchant_db \<Rightarrow> merchant_db option" where
  "update_session_completed sessionId orderId b db =
     (case checkout_sessions db sessionId of
        None \<Rightarrow> Some db
      | Some row \<Rightarrow>
          (case (varchar_null 255 (Option.bind b first_name),
                 varchar_null 255 (Option.bind b last_name),
                 varchar_null 255 (Option.bind b email),
                 varchar_null 255 (Option.bind b phone_number)) of
             (Some firstName, Some lastName, Some emailAddress, Some phoneNumber) \<Rightarrow>
               Some (db\<lparr>checkout_sessions := (checkout_sessions db)(sessionId \<mapsto>
                          row\<lparr>row_status := completed, row_order_id := Some orderId,
                              buyer_first_name := firstName,
                              buyer_last_name := lastName,
                              buyer_email := emailAddress,
                              buyer_phone_number := phoneNumber\<rparr>)\<rparr>)
           | _ \<Rightarrow> None))"

text \<open>
  The statements of a transaction run in order on the connection, each on the database that
  the one before left; the first that raises ends the run. The result tells whether all
  statements passed, with the database as the connection sees it then.
\<close>

fun run_statements :: "('db \<Rightarrow> 'db option) list \<Rightarrow> 'db \<Rightarrow> bool \<times> 'db" where
  "run_statements [] db = (True, db)"
| "run_statements (q # qs) db =
     (case q db of None \<Rightarrow> (False, db) | Some db' \<Rightarrow> run_statements qs db')"

text \<open>
  \<^verbatim>\<open>BEGIN\<close>, the statements, \<^verbatim>\<open>COMMIT\<close>; when a statement raises, \<^verbatim>\<open>ROLLBACK\<close> puts the
  database back to what it was at \<^verbatim>\<open>BEGIN\<close>, and the error is thrown again.
\<close>

definition transaction :: "('db \<Rightarrow> 'db option) list \<Rightarrow> 'db \<Rightarrow> bool \<times> 'db" where
  "transaction qs db =
     (case run_statements qs db of
        (True, db') \<Rightarrow> (True, db')
      | (False, db') \<Rightarrow> (False, db))"

text \<open>
  \<^verbatim>\<open>completeSession\<close>; \<open>orderUuid\<close> is the UUID drawn for the id of the order. The result
  comes with the database the call leaves behind.
\<close>

definition completeSession ::
  "psp_client \<Rightarrow> string \<Rightarrow> int \<Rightarrow> string \<Rightarrow> checkout_session_complete_request \<Rightarrow> merchant_db
     \<Rightarrow> (session_error + checkout_session) \<times> merchant_db" where
  "completeSession psp orderUuid now sessionId request db =
     (case getSession now sessionId db of
        None \<Rightarrow> (Inl Session_not_found, db)
      | Some session \<Rightarrow>
          if status session = completed then (Inl Session_already_completed, db)
          else if status session = canceled then (Inl Cannot_complete_canceled_session, db)
          else if status session \<noteq> ready_for_payment then (Inl Session_not_ready_for_payment, db)
          else
            (let totalAmount = total_amount Total (totals session)
             in case psp \<lparr>shared_payment_token = token (complete_payment_data request),
                          pp_amount = totalAmount, pp_currency = currency session\<rparr> of
                  Inl (st, body) \<Rightarrow> (Inl (Psp_rejected st body), db)
                | Inr paymentIntent \<Rightarrow>
                    if pi_status paymentIntent \<noteq> Completed
                    then (Inl (Payment_processing_failed (pi_status paymentIntent)), db)
                    else
                      (let b = first_some (complete_buyer request) (cs_buyer session);
                           orderId = ''order_'' @ orderUuid;
                           row = \<lparr>db_order_id = orderId, db_checkout_session_id = sessionId,
                                  db_permalink_url =
                                    ''https://merchant.example.com/orders/'' @ orderId,
                                  payment_token = token (complete_payment_data request),
                                  db_payment_provider = pd_provider (complete_payment_data request),
                                  db_billing_address =
                                    billing_address (complete_payment_data request)\<rparr>
                       in case transaction
                                 [insert_order row, update_session_completed sessionId orderId b]
                                 db of
                            (False, db') \<Rightarrow> (Inl Database_error, db')
                          | (True, db') \<Rightarrow>
                              (case getSession now sessionId db' of
                                 None \<Rightarrow> (Inl Failed_to_retrieve_session, db')
                               | Some updatedSession \<Rightarrow> (Inr updatedSession, db')))))"

definition cancelSession ::
  "int \<Rightarrow> string \<Rightarrow> merchant_db \<Rightarrow> (session_error + checkout_session) \<times> merchant_db" where
  "cancelSession now sessionId db =
     (case getSession now sessionId db of
        None \<Rightarrow> (Inl Session_not_found, db)
      | Some session \<Rightarrow>
          if status session = completed then (Inl Cannot_cancel_completed_session, db)
          else if status session = canceled then (Inr session, db)
          else
            (let db' = (case checkout_sessions db sessionId of
                          None \<Rightarrow> db
                        | Some row \<Rightarrow>
                            db\<lparr>checkout_sessions :=
                                 (checkout_sessions db)(sessionId \<mapsto> row\<lparr>row_status := canceled\<rparr>)\<rparr>)
             in case getSession now sessionId db' of
                  None \<Rightarrow> (Inl Failed_to_retrieve_session, db')
                | Some updatedSession \<Rightarrow> (Inr updatedSession, db')))"

section \<open>Merchant: CheckoutController, retrieving a session\<close>

text \<open>
  \<^verbatim>\<open>GET /checkout_sessions/:checkout_session_id\<close>: the status and the body of the
  response.
\<close>

definition getSession_route :: "int \<Rightarrow> string \<Rightarrow> merchant_db \<Rightarrow> int \<times> checkout_session body" where
  "getSession_route now sessionId db =
     (case getSession now sessionId db of
        None \<Rightarrow>
          (404, ErrorBody (error_object ''invalid_request'' ''session_not_found''
                            ''Checkout session not found'' None))
      | Some session \<Rightarrow> (200, Payload session))"

section \<open>Merchant: IdempotencyService\<close>

record 'a idempotency_record =
  requestHash :: string
  responseStatus :: int
  responseBody :: "'a body"
  responseHeaders :: "(string \<times> string) list"
  timestamp :: int

text \<open>The service: its in-memory cache and its time to live, 24 hours by default.\<close>

record 'a idempotency_service =
  cache :: "string \<rightharpoonup> 'a idempotency_record"
  ttlMs :: int

definition new_IdempotencyService :: "'a idempotency_service" where
  "new_IdempotencyService = \<lparr>cache = Map.empty, ttlMs = 24 * 60 * 60 * 1000\<rparr>"

definition hashRequest :: "json \<Rightarrow> string" where
  "hashRequest body = (let bodyString = JSON_stringify body in sha256 bodyString)"

datatype idempotency_error = Request_not_idempotent

definition check ::
  "int \<Rightarrow> string \<Rightarrow> json \<Rightarrow> 'a idempotency_service
     \<Rightarrow> (idempotency_error + 'a idempotency_record option) \<times> 'a idempotency_service" where
  "check now idempotencyKey requestBody svc =
     (case cache svc idempotencyKey of
        None \<Rightarrow> (Inr None, svc)
      | Some record \<Rightarrow>
          (let age = now - timestamp record
           in if ttlMs svc < age then
                (Inr None, svc\<lparr>cache := (cache svc)(idempotencyKey := None)\<rparr>)
              else
                (let currentHash = hashRequest requestBody
                 in if currentHash \<noteq> requestHash record
                    then (Inl Request_not_idempotent, svc)
                    else (Inr (Some record), svc))))"

definition save ::
  "int \<Rightarrow> string \<Rightarrow> json \<Rightarrow> int \<Rightarrow> 'a body \<Rightarrow> (string \<times> string) list
     \<Rightarrow> 'a idempotency_service \<Rightarrow> 'a idempotency_service" where
  "save now idempotencyKey requestBody status_code body headers svc =
     (let h = hashRequest requestBody
      in svc\<lparr>cache := (cache svc)(idempotencyKey \<mapsto>
               \<lparr>requestHash = h, responseStatus = status_code, responseBody = body,
                responseHeaders = headers, timestamp = now\<rparr>)\<rparr>)"

definition cleanup :: "int \<Rightarrow> 'a idempotency_service \<Rightarrow> 'a idempotency_service" where
  "cleanup now svc =
     svc\<lparr>cache := (\<lambda>k. case cache svc k of
                          None \<Rightarrow> None
                        | Some record \<Rightarrow>
                            if ttlMs svc < now - timestamp record then None else Some record)\<rparr>"

section \<open>Merchant: the idempotency middleware\<close>

text \<open>
  \<^verbatim>\<open>handleIdempotency\<close> around the rest of the route, \<open>handler\<close>, which takes the request body
  and the state \<open>'s\<close> it works on and answers with one \<^verbatim>\<open>res.status(..).json(..)\<close>. The
  check happens at time \<open>now\<close>, the response is saved at time \<open>sent\<close>.
\<close>

definition handleIdempotency ::
  "string \<Rightarrow> int \<Rightarrow> int \<Rightarrow> string \<Rightarrow> json \<Rightarrow> (json \<Rightarrow> 's \<Rightarrow> 'a response \<times> 's)
     \<Rightarrow> 'a idempotency_service \<times> 's \<Rightarrow> 'a response \<times> 'a idempotency_service \<times> 's" where
  "handleIdempotency method now sent idempotencyKey body handler st =
     (case st of (svc, s) \<Rightarrow>
        if method \<noteq> ''POST'' then
          (case handler body s of (resp, s') \<Rightarrow> (resp, svc, s'))
        else
          (case check now idempotencyKey body svc of
             (Inl Request_not_idempotent, svc') \<Rightarrow>
               (\<lparr>resp_status = 400, resp_headers = [],
                 resp_body = ErrorBody (error_object ''invalid_request'' ''request_not_idempotent''
                   ''Request body does not match previous request with same idempotency key''
                   (Some ''Idempotency-Key''))\<rparr>, svc', s)
           | (Inr (Some cachedResponse), svc') \<Rightarrow>
               (\<lparr>resp_status = responseStatus cachedResponse,
                 resp_headers = responseHeaders cachedResponse,
                 resp_body = responseBody cachedResponse\<rparr>, svc', s)
           | (Inr None, svc') \<Rightarrow>
               (case handler body s of (resp, s') \<Rightarrow>
                  (resp,
                   if 200 \<le> resp_status resp \<and> resp_status resp < 300
                   then save sent idempotencyKey body (resp_status resp) (resp_body resp)
                          (resp_headers resp) svc'
                   else svc',
                   s'))))"

section \<open>PSP: data model\<close>

datatype vault_token_status = Active | Consumed | Expired

text \<open>\<open>expires_at\<close> is the instant the RFC 3339 text denotes, in milliseconds since the epoch.\<close>

record allowance =
  reason :: string
  max_amount :: int
  allowance_currency :: string
  allowance_checkout_session_id :: string
  merchant_id :: string
  expires_at :: int

record delegate_payment_request =
  dp_payment_method :: json
  dp_allowance :: allowance
  dp_billing_address :: "json option"
  dp_risk_signals :: json
  dp_metadata :: json

record vault_token =
  vt_id :: string
  vt_created :: int
  vt_payment_method :: json
  vt_allowance :: allowance
  vt_billing_address :: "json option"
  vt_risk_signals :: json
  vt_metadata :: json
  vt_idempotency_key :: string
  vt_request_id :: string
  vt_status :: vault_token_status

record payment_intent =
  row_pi_id :: string
  row_vault_token_id :: string
  row_pi_status :: payment_intent_status
  row_amount :: int
  row_pi_currency :: string
  row_merchant_id :: string
  row_metadata :: json
  row_created :: int
  row_completed_at :: "int option"

record idempotency_row =
  request_hash :: string
  response_status :: int
  response_body :: json

record psp_db =
  vault_tokens :: "string \<rightharpoonup> vault_token"
  payment_intents :: "string \<rightharpoonup> payment_intent"
  idempotency_store :: "string \<rightharpoonup> idempotency_row"

record create_payment_intent_request =
  cpi_shared_payment_token :: string
  cpi_amount :: int
  cpi_currency :: string
  cpi_merchant_id :: "string option"
  cpi_metadata :: "json option"

text \<open>
  A column of type \<^verbatim>\<open>JSONB\<close> holds a value in the normal form of the database: of the
  members of an object that share a key the last one is kept, and the members are ordered by
  the length of the key and then bytewise. The driver parses the stored text, so that a
  value read from the column has its members in this order (the keys are not array
  indices).
\<close>

fun last_wins :: "(string \<times> 'a) list \<Rightarrow> (string \<times> 'a) list" where
  "last_wins [] = []"
| "last_wins (kv # rest) =
     (if fst kv \<in> set (map fst rest) then last_wins rest else kv # last_wins rest)"

fun jsonb :: "json \<Rightarrow> json" where
  "jsonb (JArray xs) = JArray (map jsonb xs)"
| "jsonb (JObject kvs) =
     JObject (sort_key (\<lambda>kv. (length (fst kv), fst kv))
                (last_wins (map (\<lambda>kv. (fst kv, jsonb (snd kv))) kvs)))"
| "jsonb v = v"

text \<open>
  What a PSP service throws: an object \<^verbatim>\<open>{status, body}\<close> that the route sends as it is, or
  an error of the database, which the route answers with status 500.
\<close>

datatype psp_failure = Thrown int json | Database_failure

section \<open>PSP: IdempotencyService\<close>

definition obj_set :: "(string \<times> json) list \<Rightarrow> string \<Rightarrow> json \<Rightarrow> (string \<times> json) list" where
  "obj_set obj key v =
     (if key \<in> set (map fst obj)
      then map (\<lambda>kv. if fst kv = key then (key, v) else kv) obj
      else obj @ [(key, v)])"

definition obj_get :: "(string \<times> json) list \<Rightarrow> string \<Rightarrow> json" where
  "obj_get obj key = (case map_of obj key of None \<Rightarrow> JNull | Some v \<Rightarrow> v)"

text \<open>
  \<^verbatim>\<open>sortObject\<close>: the keys of an object, sorted, are assigned in that order to a new object,
  each with the sorted copy of its value.
\<close>

fun sortObject :: "json \<Rightarrow> json" where
  "sortObject (JArray xs) = JArray (map sortObject xs)"
| "sortObject (JObject kvs) =
     JObject (foldl (\<lambda>result key.
                       obj_set result key
                         (obj_get (map (\<lambda>kv. (fst kv, sortObject (snd kv))) kvs) key))
                [] (sort (map fst kvs)))"
| "sortObject v = v"

definition generateRequestHash :: "json \<Rightarrow> string" where
  "generateRequestHash body = (let canonical = JSON_stringify (sortObject body) in sha256 canonical)"

definition checkIdempotency ::
  "string \<Rightarrow> json \<Rightarrow> psp_db \<Rightarrow> psp_failure + (int \<times> json) option" where
  "checkIdempotency idempotencyKey requestBody db =
     (let h = generateRequestHash requestBody
      in case idempotency_store db idempotencyKey of
           None \<Rightarrow> Inr None
         | Some stored \<Rightarrow>
             if request_hash stored \<noteq> h
             then Inl (Thrown 409
                    (error_object ''idempotency_conflict'' ''idempotency_conflict''
                       ''Idempotency key used with different parameters'' None))
             else Inr (Some (response_status stored, response_body stored)))"

text \<open>
  The insert is \<^verbatim>\<open>ON CONFLICT (idempotency_key) DO NOTHING\<close>; the column \<^verbatim>\<open>response_body\<close>
  is of type \<^verbatim>\<open>JSONB\<close>.
\<close>

definition storeResponse :: "string \<Rightarrow> json \<Rightarrow> int \<Rightarrow> json \<Rightarrow> psp_db \<Rightarrow> psp_db" where
  "storeResponse idempotencyKey requestBody status_code body db =
     (let h = generateRequestHash requestBody
      in case idempotency_store db idempotencyKey of
           Some _ \<Rightarrow> db
         | None \<Rightarrow>
             db\<lparr>idempotency_store := (idempotency_store db)(idempotencyKey \<mapsto>
                  \<lparr>request_hash = h, response_status = status_code,
                   response_body = jsonb body\<rparr>)\<rparr>)"

section \<open>PSP: VaultTokenService and the delegate_payment route\<close>

definition json_truthy :: "json \<Rightarrow> bool" where
  "json_truthy v =
     (case v of JNull \<Rightarrow> False | JBool b \<Rightarrow> b | JNumber n \<Rightarrow> n \<noteq> 0 | JString s \<Rightarrow> s \<noteq> []
      | JArray _ \<Rightarrow> True | JObject _ \<Rightarrow> True)"

definition json_members :: "json \<Rightarrow> (string \<times> json) list" where
  "json_members v = (case v of JObject kvs \<Rightarrow> kvs | _ \<Rightarrow> [])"

text \<open>
  \<^verbatim>\<open>createVaultToken\<close>; the id is \<^verbatim>\<open>vt_\<close> and 16 characters of a fresh UUID, \<open>randomId\<close>. The
  insert raises when the id is taken or when a token with the idempotency key exists (the
  column is \<^verbatim>\<open>UNIQUE\<close>); a new row has the default status \<^verbatim>\<open>active\<close>.
\<close>

definition createVaultToken ::
  "string \<Rightarrow> int \<Rightarrow> string \<Rightarrow> string \<Rightarrow> delegate_payment_request \<Rightarrow> psp_db
     \<Rightarrow> psp_failure + (string \<times> int \<times> json) \<times> psp_db" where
  "createVaultToken randomId created idempotencyKey requestId data db =
     (let vaultTokenId = ''vt_'' @ randomId
      in if vault_tokens db vaultTokenId \<noteq> None
            \<or> (\<exists>t \<in> ran (vault_tokens db). vt_idempotency_key t = idempotencyKey)
         then Inl Database_failure
         else
           (let row = \<lparr>vt_id = vaultTokenId, vt_created = created,
                       vt_payment_method = jsonb (dp_payment_method data),
                       vt_allowance = dp_allowance data,
                       vt_billing_address = map_option jsonb (dp_billing_address data),
                       vt_risk_signals = jsonb (dp_risk_signals data),
                       vt_metadata = jsonb (dp_metadata data),
                       vt_idempotency_key = idempotencyKey, vt_request_id = requestId,
                       vt_status = Active\<rparr>;
                md = json_members (dp_metadata data);
                responseMetadata =
                  JObject
                    (obj_set
                       (obj_set (obj_set md ''idempotency_key'' (JString idempotencyKey))
                          ''merchant_id'' (JString (merchant_id (dp_allowance data))))
                       ''source''
                       (if json_truthy (obj_get md ''source'') then obj_get md ''source''
                        else JString ''chatgpt''))
            in Inr ((vaultTokenId, created, responseMetadata),
                    db\<lparr>vault_tokens := (vault_tokens db)(vaultTokenId \<mapsto> row)\<rparr>)))"

text \<open>
  The route. \<open>validate\<close> stands for \<^verbatim>\<open>validateRequiredHeaders\<close> and \<^verbatim>\<open>validateRequestBody\<close>
  (the status and error they answer with, if any), \<open>decode\<close> for the typed view of the body
  that the route reads its fields from.
\<close>

definition delegate_payment ::
  "(json \<Rightarrow> (int \<times> json) option) \<Rightarrow> (json \<Rightarrow> delegate_payment_request) \<Rightarrow> string \<Rightarrow> int
     \<Rightarrow> string \<Rightarrow> string \<Rightarrow> json \<Rightarrow> psp_db \<Rightarrow> (int \<times> json) \<times> psp_db" where
  "delegate_payment validate decode randomId now idempotencyKey requestId body db =
     (let processing_error =
            (500, error_object ''processing_error'' ''duplicate_request''
                    ''An error occurred while processing the request'' None)
      in case validate body of
           Some err \<Rightarrow> (err, db)
         | None \<Rightarrow>
             (case checkIdempotency idempotencyKey body db of
                Inl (Thrown st errorBody) \<Rightarrow>
                  (if st = 409 then ((st, errorBody), db) else (processing_error, db))
              | Inl Database_failure \<Rightarrow> (processing_error, db)
              | Inr (Some cachedResponse) \<Rightarrow> (cachedResponse, db)
              | Inr None \<Rightarrow>
                  (case createVaultToken randomId now idempotencyKey requestId (decode body) db of
                     Inl _ \<Rightarrow> (processing_error, db)
                   | Inr ((vid, created, md), db') \<Rightarrow>
                       (let responseBody =
                              JObject [(''id'', JString vid), (''created'', JNumber created),
                                       (''metadata'', md)]
                        in ((201, responseBody),
                            storeResponse idempotencyKey body 201 responseBody db')))))"

section \<open>PSP: PaymentIntentService\<close>

definition validateVaultToken :: "int \<Rightarrow> string \<Rightarrow> psp_db \<Rightarrow> psp_failure + vault_token" where
  "validateVaultToken now vaultTokenId db =
     (case vault_tokens db vaultTokenId of
        None \<Rightarrow>
          Inl (Thrown 400 (error_object ''invalid_request'' ''invalid_vault_token''
                 ''Vault token not found'' (Some ''shared_payment_token'')))
      | Some tok \<Rightarrow>
          if vt_status tok = Consumed then
            Inl (Thrown 400 (error_object ''invalid_request'' ''vault_token_already_used''
                   ''Vault token has already been used'' (Some ''shared_payment_token'')))
          else if expires_at (vt_allowance tok) < now then
            Inl (Thrown 400 (error_object ''invalid_request'' ''vault_token_expired''
                   ''Vault token has expired'' (Some ''shared_payment_token'')))
          else Inr tok)"

text \<open>\<^verbatim>\<open>validatePaymentDetails\<close> returns nothing or throws; \<open>None\<close> is the normal return.\<close>

definition validatePaymentDetails :: "int \<Rightarrow> string \<Rightarrow> allowance \<Rightarrow> psp_failure option" where
  "validatePaymentDetails amnt cur al =
     (if max_amount al < amnt then
        Some (Thrown 400 (error_object ''invalid_request'' ''amount_exceeds_allowance''
                (''Amount '' @ show_int amnt @ '' exceeds maximum allowance of ''
                   @ show_int (max_amount al))
                (Some ''amount'')))
      else if cur \<noteq> allowance_currency al then
        Some (Thrown 400 (error_object ''invalid_request'' ''currency_mismatch''
                (''Currency '' @ cur @ '' does not match vault token currency ''
                   @ allowance_currency al)
                (Some ''currency'')))
      else if reason al \<noteq> ''one_time'' then
        Some (Thrown 400 (error_object ''invalid_request'' ''invalid_allowance''
                ''Vault token allowance must be one_time'' None))
      else None)"

definition invalidateVaultToken :: "string \<Rightarrow> psp_db \<Rightarrow> psp_db" where
  "invalidateVaultToken vaultTokenId db =
     (case vault_tokens db vaultTokenId of
        None \<Rightarrow> db
      | Some tok \<Rightarrow>
          db\<lparr>vault_tokens := (vault_tokens db)(vaultTokenId \<mapsto> tok\<lparr>vt_status := Consumed\<rparr>)\<rparr>)"

text \<open>
  The statements of steps 3 and 5. The insert raises when the id of the payment intent is
  taken or the vault token it references is missing.
\<close>

definition insert_payment_intent ::
  "string \<Rightarrow> create_payment_intent_request \<Rightarrow> vault_token \<Rightarrow> int \<Rightarrow> psp_db \<Rightarrow> psp_db option" where
  "insert_payment_intent paymentIntentId request vaultToken created db =
     (if payment_intents db paymentIntentId \<noteq> None
         \<or> vault_tokens db (cpi_shared_payment_token request) = None
      then None
      else Some (db\<lparr>payment_intents := (payment_intents db)(paymentIntentId \<mapsto>
             \<lparr>row_pi_id = paymentIntentId,
              row_vault_token_id = cpi_shared_payment_token request,
              row_pi_status = Pending,
              row_amount = cpi_amount request,
              row_pi_currency = cpi_currency request,
              row_merchant_id =
                (if truthy (cpi_merchant_id request) then the (cpi_merchant_id request)
                 else merchant_id (vt_allowance vaultToken)),
              row_metadata =
                jsonb (case cpi_metadata request of None \<Rightarrow> JObject [] | Some m \<Rightarrow> m),
              row_created = created,
              row_completed_at = None\<rparr>)\<rparr>))"

definition mark_payment_completed :: "string \<Rightarrow> int \<Rightarrow> psp_db \<Rightarrow> psp_db" where
  "mark_payment_completed paymentIntentId completedAt db =
     (case payment_intents db paymentIntentId of
        None \<Rightarrow> db
      | Some row \<Rightarrow>
          db\<lparr>payment_intents := (payment_intents db)(paymentIntentId \<mapsto>
               row\<lparr>row_pi_status := Completed, row_completed_at := Some completedAt\<rparr>)\<rparr>)"

text \<open>
  What one call draws from outside: the request, the random part of the id of the payment
  intent, the time of the validation and of \<^verbatim>\<open>created\<close>, and the time of completion.
\<close>

record cpi_call =
  call_request :: create_payment_intent_request
  call_randomId :: string
  call_now :: int
  call_completedAt :: int

definition cpi_response :: "cpi_call \<Rightarrow> payment_intent_response" where
  "cpi_response c =
     \<lparr>pi_id = ''pi_'' @ call_randomId c, pi_status = Completed,
      pi_amount = cpi_amount (call_request c), pi_currency = cpi_currency (call_request c),
      pi_vault_token_id = cpi_shared_payment_token (call_request c),
      pi_created = call_now c, pi_completed_at = Some (call_completedAt c),
      pi_metadata = (case cpi_metadata (call_request c) of None \<Rightarrow> JObject [] | Some m \<Rightarrow> m)\<rparr>"

text \<open>\<^verbatim>\<open>createAndProcessPaymentIntent\<close>, run from its first statement to its return.\<close>

definition createAndProcessPaymentIntent ::
  "cpi_call \<Rightarrow> psp_db \<Rightarrow> (psp_failure + payment_intent_response) \<times> psp_db" where
  "createAndProcessPaymentIntent c db =
     (let request = call_request c
      in case validateVaultToken (call_now c) (cpi_shared_payment_token request) db of
           Inl e \<Rightarrow> (Inl e, db)
         | Inr vaultToken \<Rightarrow>
             (case validatePaymentDetails (cpi_amount request) (cpi_currency request)
                     (vt_allowance vaultToken) of
                Some e \<Rightarrow> (Inl e, db)
              | None \<Rightarrow>
                  (let paymentIntentId = ''pi_'' @ call_randomId c
                   in case insert_payment_intent paymentIntentId request vaultToken
                             (call_now c) db of
                        None \<Rightarrow> (Inl Database_failure, db)
                      | Some db1 \<Rightarrow>
                          (let db2 = mark_payment_completed paymentIntentId
                                       (call_completedAt c) db1;
                               db3 = invalidateVaultToken (cpi_shared_payment_token request) db2
                           in (Inr (cpi_response c), db3)))))"

text \<open>
  The same function between its \<^verbatim>\<open>await\<close>s. Every query is awaited, and so is the two
  seconds' pause of \<^verbatim>\<open>simulatePaymentProcessing\<close>; while a call waits, the server runs the
  other calls in flight. A call is at one of these points: before the query of
  \<^verbatim>\<open>validateVaultToken\<close>; validated, before the insert; inserted, pausing before the update
  of the payment intent; updated, before the update of the vault token; returned.
\<close>

datatype cpi_point =
  At_start
| At_insert vault_token
| At_processing
| At_invalidate
| Returned "psp_failure + payment_intent_response"

definition cpi_step :: "cpi_call \<Rightarrow> cpi_point \<Rightarrow> psp_db \<Rightarrow> cpi_point \<times> psp_db" where
  "cpi_step c pt db =
     (let request = call_request c; paymentIntentId = ''pi_'' @ call_randomId c
      in case pt of
           At_start \<Rightarrow>
             (case validateVaultToken (call_now c) (cpi_shared_payment_token request) db of
                Inl e \<Rightarrow> (Returned (Inl e), db)
              | Inr vaultToken \<Rightarrow>
                  (case validatePaymentDetails (cpi_amount request) (cpi_currency request)
                          (vt_allowance vaultToken) of
                     Some e \<Rightarrow> (Returned (Inl e), db)
                   | None \<Rightarrow> (At_insert vaultToken, db)))
         | At_insert vaultToken \<Rightarrow>
             (case insert_payment_intent paymentIntentId request vaultToken (call_now c) db of
                None \<Rightarrow> (Returned (Inl Database_failure), db)
              | Some db1 \<Rightarrow> (At_processing, db1))
         | At_processing \<Rightarrow>
             (At_invalidate, mark_payment_completed paymentIntentId (call_completedAt c) db)
         | At_invalidate \<Rightarrow>
             (Returned (Inr (cpi_response c)),
              invalidateVaultToken (cpi_shared_payment_token request) db)
         | Returned r \<Rightarrow> (Returned r, db))"

text \<open>
  The server with several calls in flight: the schedule names, step by step, the call that
  runs up to its next \<^verbatim>\<open>await\<close>.
\<close>

fun run_schedule ::
  "cpi_call list \<Rightarrow> nat list \<Rightarrow> cpi_point list \<times> psp_db \<Rightarrow> cpi_point list \<times> psp_db" where
  "run_schedule cs [] st = st"
| "run_schedule cs (i # sched) (pts, db) =
     (if i < length cs \<and> i < length pts
      then (case cpi_step (cs ! i) (pts ! i) db of
              (pt', db') \<Rightarrow> run_schedule cs sched (pts[i := pt'], db'))
      else run_schedule cs sched (pts, db))"

text \<open>The payment intents of a vault token that are completed.\<close>

definition completed_intents :: "psp_db \<Rightarrow> string \<Rightarrow> string set" where
  "completed_intents db vaultTokenId =
     {pid. \<exists>row. payment_intents db pid = Some row
                 \<and> row_vault_token_id row = vaultTokenId \<and> row_pi_status row = Completed}"

section \<open>Notions the properties are stated with\<close>

text \<open>
  Two bodies that are equal as JSON values: the same tree, the properties of an object in
  any order.
\<close>

inductive json_equiv :: "json \<Rightarrow> json \<Rightarrow> bool" where
  equiv_null: "json_equiv JNull JNull"
| equiv_bool: "json_equiv (JBool b) (JBool b)"
| equiv_number: "json_equiv (JNumber n) (JNumber n)"
| equiv_string: "json_equiv (JString s) (JString s)"
| equiv_array: "list_all2 json_equiv xs ys \<Longrightarrow> json_equiv (JArray xs) (JArray ys)"
| equiv_object:
    "distinct (map fst kvs) \<Longrightarrow> distinct (map fst kvs') \<Longrightarrow>
     list_all2 (\<lambda>kv kv'. fst kv = fst kv' \<and> json_equiv (snd kv) (snd kv')) kvs ys \<Longrightarrow>
     set ys = set kvs' \<Longrightarrow> json_equiv (JObject kvs) (JObject kvs')"


text \<open>The \<^verbatim>\<open>code\<close> member of an error object.\<close>

definition error_code :: "json \<Rightarrow> string option" where
  "error_code body =
     (case obj_get (json_members body) ''code'' of JString s \<Rightarrow> Some s | _ \<Rightarrow> None)"

text \<open>
  An item that \<^verbatim>\<open>validateAndBuildLineItems\<close> answers with an error message: its product is
  not in the catalog, or less of it is available than requested.
\<close>

definition item_has_error :: "merchant_db \<Rightarrow> item \<Rightarrow> bool" where
  "item_has_error db it =
     (case products db (item_id it) of
        None \<Rightarrow> True
      | Some p \<Rightarrow> \<not> quantity it \<le> available_quantity p)"

text \<open>The subtotal of the items, as \<^verbatim>\<open>calculateTotals\<close> computes it.\<close>

definition items_subtotal :: "line_item list \<Rightarrow> int" where
  "items_subtotal lineItems =
     foldl (\<lambda>sum it. sum + base_amount it) 0 lineItems
     - foldl (\<lambda>sum it. sum + discount it) 0 lineItems"


text \<open>
  Calls of \<^verbatim>\<open>createAndProcessPaymentIntent\<close> one after the other, each from its first
  statement to its return, and the property that every vault token with a payment intent is
  consumed and has one payment intent only.
\<close>

fun run_calls :: "cpi_call list \<Rightarrow> psp_db \<Rightarrow> psp_db" where
  "run_calls [] db = db"
| "run_calls (c # cs) db = run_calls cs (snd (createAndProcessPaymentIntent c db))"

definition tokens_spent_once :: "psp_db \<Rightarrow> bool" where
  "tokens_spent_once db \<longleftrightarrow>
     (\<forall>pid row. payment_intents db pid = Some row \<longrightarrow>
        (\<exists>tok. vault_tokens db (row_vault_token_id row) = Some tok \<and> vt_status tok = Consumed)
        \<and> (\<forall>pid' row'. payment_intents db pid' = Some row'
               \<and> row_vault_token_id row' = row_vault_token_id row \<longrightarrow> pid' = pid))"

section \<open>Scenario data\<close>

text \<open>
  The catalog, the address and the requests of the scenarios: one physical product
  \<^verbatim>\<open>item_123\<close> at 2999 cents and a Californian address.
\<close>

definition item_123 :: product where
  "item_123 = \<lparr>product_id = ''item_123'', base_price = 2999, available_quantity = 100,
                requires_shipping = True\<rparr>"

definition scenario_db :: merchant_db where
  "scenario_db = \<lparr>products = [''item_123'' \<mapsto> item_123], checkout_sessions = Map.empty,
                   line_items_table = [], orders = Map.empty\<rparr>"

definition california_address :: address where
  "california_address =
     \<lparr>addr_name = ''John Doe'', line_one = ''1234 Chat Road'', line_two = None,
      city = ''San Francisco'', addr_state = ''CA'', country = ''US'', postal_code = ''94131''\<rparr>"

definition two_of_item_123 :: "item list" where
  "two_of_item_123 = [\<lparr>item_id = ''item_123'', quantity = 2\<rparr>]"

definition john :: buyer where
  "john = \<lparr>first_name = Some ''John'', last_name = Some ''Doe'',
           email = Some ''john@example.com'', phone_number = None\<rparr>"

definition scenario_create :: "checkout_session \<times> merchant_db" where
  "scenario_create =
     createSession ''s1'' (\<lambda>k. ''l1'') 0
       \<lparr>create_items = two_of_item_123, create_buyer = None,
        create_fulfillment_address = Some california_address\<rparr> scenario_db"

definition scenario_create_no_address :: "checkout_session \<times> merchant_db" where
  "scenario_create_no_address =
     createSession ''s1'' (\<lambda>k. ''l1'') 0
       \<lparr>create_items = two_of_item_123, create_buyer = None,
        create_fulfillment_address = None\<rparr> scenario_db"

definition buyer_only_update :: checkout_session_update_request where
  "buyer_only_update =
     \<lparr>update_buyer = Some john, update_items = None, update_fulfillment_address = None,
      update_fulfillment_option_id = None\<rparr>"

definition body_a_b :: json where
  "body_a_b = JObject [(''a'', JNumber 1), (''b'', JNumber 2)]"

definition body_b_a :: json where
  "body_b_a = JObject [(''b'', JNumber 2), (''a'', JNumber 1)]"

definition body_a :: json where
  "body_a = JObject [(''a'', JNumber 1)]"

definition scenario_allowance :: allowance where
  "scenario_allowance =
     \<lparr>reason = ''one_time'', max_amount = 7148, allowance_currency = ''usd'',
      allowance_checkout_session_id = ''cs_s1'', merchant_id = ''merchant_1'',
      expires_at = 3600000\<rparr>"

definition scenario_token :: vault_token where
  "scenario_token =
     \<lparr>vt_id = ''vt_1'', vt_created = 0, vt_payment_method = JObject [],
      vt_allowance = scenario_allowance, vt_billing_address = None,
      vt_risk_signals = JArray [], vt_metadata = JObject [],
      vt_idempotency_key = ''key-1'', vt_request_id = ''req-1'', vt_status = Active\<rparr>"

definition scenario_psp_db :: psp_db where
  "scenario_psp_db =
     \<lparr>vault_tokens = [''vt_1'' \<mapsto> scenario_token], payment_intents = Map.empty,
      idempotency_store = Map.empty\<rparr>"

definition charge_7148 :: create_payment_intent_request where
  "charge_7148 =
     \<lparr>cpi_shared_payment_token = ''vt_1'', cpi_amount = 7148, cpi_currency = ''usd'',
      cpi_merchant_id = None, cpi_metadata = None\<rparr>"

definition call_a :: cpi_call where
  "call_a = \<lparr>call_request = charge_7148, call_randomId = ''a'', call_now = 1000,
             call_completedAt = 3000\<rparr>"

definition call_b :: cpi_call where
  "call_b = \<lparr>call_request = charge_7148, call_randomId = ''b'', call_now = 1500,
             call_completedAt = 3500\<rparr>"

definition call_8000_eur :: cpi_call where
  "call_8000_eur =
     \<lparr>call_request = \<lparr>cpi_shared_payment_token = ''vt_1'', cpi_amount = 8000,
                       cpi_currency = ''eur'', cpi_merchant_id = None, cpi_metadata = None\<rparr>,
      call_randomId = ''c'', call_now = 1000, call_completedAt = 3000\<rparr>"

definition missing_item :: item where
  "missing_item = \<lparr>item_id = ''item_999'', quantity = 1\<rparr>"

text \<open>A PSP that completes every payment, and one whose payments fail.\<close>

definition psp_completes :: psp_client where
  "psp_completes request =
     Inr \<lparr>pi_id = ''pi_1'', pi_status = Completed, pi_amount = pp_amount request,
          pi_currency = pp_currency request,
          pi_vault_token_id = shared_payment_token request, pi_created = 0,
          pi_completed_at = Some 2000, pi_metadata = JObject []\<rparr>"

definition psp_fails :: psp_client where
  "psp_fails request =
     Inr \<lparr>pi_id = ''pi_1'', pi_status = Failed, pi_amount = pp_amount request,
          pi_currency = pp_currency request,
          pi_vault_token_id = shared_payment_token request, pi_created = 0,
          pi_completed_at = None, pi_metadata = JObject []\<rparr>"

definition pay_with_vt_1 :: checkout_session_complete_request where
  "pay_with_vt_1 =
     \<lparr>complete_buyer = None,
      complete_payment_data = \<lparr>token = ''vt_1'', pd_provider = ''stripe'', billing_address = None\<rparr>\<rparr>"

text \<open>
  The same payment with a buyer whose first name has 256 characters, one more than the
  column \<^verbatim>\<open>buyer_first_name\<close> takes.
\<close>

definition pay_with_long_name :: checkout_session_complete_request where
  "pay_with_long_name =
     \<lparr>complete_buyer = Some \<lparr>first_name = Some (replicate 256 CHR ''x''), last_name = Some ''Doe'',
                              email = Some ''john@example.com'', phone_number = None\<rparr>,
      complete_payment_data = \<lparr>token = ''vt_1'', pd_provider = ''stripe'', billing_address = None\<rparr>\<rparr>"

text \<open>
  An update that brings the Californian address and nothing else, and a PSP that completes
  a payment of the amount it expects and no other.
\<close>

definition address_update :: checkout_session_update_request where
  "address_update =
     \<lparr>update_buyer = None, update_items = None,
      update_fulfillment_address = Some california_address, update_fulfillment_option_id = None\<rparr>"

definition psp_expects :: "int \<Rightarrow> psp_client" where
  "psp_expects expected request =
     (if pp_amount request = expected then psp_completes request else psp_fails request)"



definition scenario_decode_delegate :: "json \<Rightarrow> delegate_payment_request" where
  "scenario_decode_delegate body =
     \<lparr>dp_payment_method = JObject [], dp_allowance = scenario_allowance,
      dp_billing_address = None, dp_risk_signals = JArray [], dp_metadata = JObject []\<rparr>"

definition empty_psp_db :: psp_db where
  "empty_psp_db =
     \<lparr>vault_tokens = Map.empty, payment_intents = Map.empty, idempotency_store = Map.empty\<rparr>"



definition scenario_delegate_a :: "(int \<times> json) \<times> psp_db" where
  "scenario_delegate_a =
     delegate_payment (\<lambda>body. None) scenario_decode_delegate ''1'' 0 ''key-1'' ''req-1''
       body_a empty_psp_db"

definition scenario_saved_service :: "unit idempotency_service" where
  "scenario_saved_service = save 0 ''key-1'' body_a_b 201 (Payload ()) [] new_IdempotencyService"

definition unit_handler :: "json \<Rightarrow> unit \<Rightarrow> unit response \<times> unit" where
  "unit_handler body s = (\<lparr>resp_status = 201, resp_headers = [], resp_body = Payload ()\<rparr>, s)"

chapter \<open>Properties\<close>

section \<open>The tax of ten percent in binary64\<close>

lemma powi_half: "(2::real) powi (e - 1) = 2 powi e / 2"
  by (simp add: power_int_diff)

lemma powi_double: "(2::real) powi (e + 1) = 2 * 2 powi e"
  by (simp add: power_int_add)

lemma binade_correct:
  "0 < x \<Longrightarrow> 2 powi e \<le> x \<Longrightarrow> x < 2 powi (e + 1) \<Longrightarrow> nat \<bar>e\<bar> \<le> n \<Longrightarrow> binade n x = e"
proof (induction n arbitrary: x e)
  case 0
  then show ?case by simp
next
  case (Suc n)
  show ?case
  proof (cases "2 \<le> x")
    case True
    have "1 \<le> e"
    proof (rule ccontr)
      assume "\<not> 1 \<le> e"
      then have "e + 1 \<le> 1" by simp
      then have "(2::real) powi (e + 1) \<le> 2 powi 1"
        by (intro power_int_increasing) auto
      with Suc.prems True show False by simp
    qed
    have "binade n (x / 2) = e - 1"
    proof (rule Suc.IH)
      show "0 < x / 2" using Suc.prems by simp
      show "2 powi (e - 1) \<le> x / 2" using Suc.prems by (simp add: powi_half)
      show "x / 2 < 2 powi (e - 1 + 1)" using Suc.prems by (simp add: powi_double)
      show "nat \<bar>e - 1\<bar> \<le> n" using Suc.prems \<open>1 \<le> e\<close> by simp
    qed
    with True show ?thesis by simp
  next
    case False
    show ?thesis
    proof (cases "x < 1")
      case True
      have "e \<le> - 1"
      proof (rule ccontr)
        assume "\<not> e \<le> - 1"
        then have "0 \<le> e" by simp
        then have "(2::real) powi 0 \<le> 2 powi e"
          by (intro power_int_increasing) auto
        with Suc.prems True show False by simp
      qed
      have "binade n (2 * x) = e + 1"
      proof (rule Suc.IH)
        show "0 < 2 * x" using Suc.prems by simp
        show "2 powi (e + 1) \<le> 2 * x" using Suc.prems by (simp add: powi_double)
        show "2 * x < 2 powi (e + 1 + 1)"
          using Suc.prems(3) powi_double[of "e + 1"] powi_double[of e] by simp
        show "nat \<bar>e + 1\<bar> \<le> n" using Suc.prems \<open>e \<le> - 1\<close> by simp
      qed
      with True False show ?thesis by simp
    next
      case F2: False
      have "e = 0"
      proof (rule ccontr)
        assume "e \<noteq> 0"
        then consider "1 \<le> e" | "e + 1 \<le> 0" by linarith
        then show False
        proof cases
          case 1
          then have "(2::real) powi 1 \<le> 2 powi e" by (intro power_int_increasing) auto
          with Suc.prems False show ?thesis by simp
        next
          case 2
          then have "(2::real) powi (e + 1) \<le> 2 powi 0" by (intro power_int_increasing) auto
          with Suc.prems F2 show ?thesis by simp
        qed
      qed
      with False F2 show ?thesis by simp
    qed
  qed
qed

lemma round_half_even_ge: "of_int m \<le> y \<Longrightarrow> m \<le> round_half_even y"
  by (auto simp add: round_half_even_def Let_def le_floor_iff) linarith+

lemma round_half_even_le: "of_int (round_half_even y) \<le> y + 1 / 2"
  by (auto simp add: round_half_even_def Let_def) linarith+

lemma binade_exists:
  assumes "0 < (x::real)"
  shows "\<exists>e. 2 powi e \<le> x \<and> x < 2 powi (e + 1)"
proof -
  define e where "e = \<lfloor>log 2 x\<rfloor>"
  have le: "of_int e \<le> log 2 x" and lt: "log 2 x < of_int (e + 1)"
    unfolding e_def by linarith+
  have pw: "(2::real) powr (of_int j) = 2 powi j" for j
    by (simp add: powr_real_of_int power_int_def power_divide inverse_eq_divide)
  have "2 powr (of_int e) \<le> 2 powr (log 2 x)" using le by simp
  moreover have "2 powr (log 2 x) < 2 powr (of_int (e + 1))" using lt by simp
  moreover have "2 powr (log 2 x) = x" using assms by simp
  ultimately show ?thesis using pw[of e] pw[of "e + 1"] by auto
qed

lemma double_round_pos:
  assumes "0 < x" and "2 powi e \<le> x" and "x < 2 powi (e + 1)" and "- 1022 \<le> e" and "e \<le> 1023"
  shows "double_round x = 2 powi (e - 52) * of_int (round_half_even (x / 2 powi (e - 52)))"
proof -
  have "binade 1100 x = e"
    using assms(1-3) by (rule binade_correct) (use assms(4,5) in simp)
  then show ?thesis
    unfolding double_round_def using assms(1,4) by (simp add: Let_def max_def)
qed

lemma double_0_10_split: "double_0_10 = 1 / 10 + 1 / (5 * 2 ^ 55)"
  by (simp add: double_0_10_def)

lemma tenth_rounding_exact:
  assumes "0 \<le> t" and "t < 3 * 2 ^ 51"
  shows "Math_round (number_times (of_int t) double_0_10) = (t + 5) div 10"
proof (cases "t = 0")
  case True
  then show ?thesis by (simp add: number_times_def double_round_def Math_round_def)
next
  case False
  define k where "k = (t + 5) div 10"
  define x where "x = real_of_int t * double_0_10"
  have t1: "1 \<le> t" using assms False by simp
  have kl: "10 * k \<le> t + 5" and ku: "t + 5 < 10 * k + 10"
    unfolding k_def by linarith+
  have "real_of_int t < real_of_int (3 * 2 ^ 51)" using assms(2) by (simp only: of_int_less_iff)
  then have rt: "real_of_int t < 3 * 2 ^ 51" by simp
  have x_eq: "x = real_of_int t / 10 + real_of_int t / (5 * 2 ^ 55)"
    unfolding x_def double_0_10_split by (simp add: algebra_simps)
  have x_ge: "real_of_int t / 10 \<le> x" using t1 unfolding x_eq by simp
  have x_lt: "x < real_of_int t / 10 + 3 / 80" using rt unfolding x_eq by simp
  have "1 / 10 \<le> real_of_int t / 10" using t1 by simp
  then have x_tenth: "1 / 10 \<le> x" using x_ge by linarith
  then have xpos: "0 < x" by linarith
  obtain e where e1: "2 powi e \<le> x" and e2: "x < 2 powi (e + 1)"
    using binade_exists[OF xpos] by blast
  have e_hi: "e \<le> 49"
  proof (rule ccontr)
    assume "\<not> e \<le> 49"
    then have "(2::real) powi 50 \<le> 2 powi e" by (intro power_int_increasing) auto
    with e1 x_lt rt show False by simp
  qed
  have e_lo: "- 4 \<le> e"
  proof (rule ccontr)
    assume "\<not> - 4 \<le> e"
    then have "(2::real) powi (e + 1) \<le> 2 powi (- 4)" by (intro power_int_increasing) auto
    then show False using e2 x_tenth by (simp add: power_int_minus)
  qed
  define u where "u = (2::real) powi (e - 52)"
  have upos: "0 < u" unfolding u_def by simp
  have u_le: "u \<le> 1 / 8"
  proof -
    have "(2::real) powi (e - 52) \<le> 2 powi (- 3)"
      using e_hi by (intro power_int_increasing) auto
    then show ?thesis unfolding u_def by (simp add: power_int_minus)
  qed
  have dr: "double_round x = u * of_int (round_half_even (x / u))"
    unfolding u_def using xpos e1 e2 by (rule double_round_pos) (use e_lo e_hi in simp_all)
  define m where "m = (2 * k - 1) * 2 ^ nat (51 - e)"
  have "(2::real) ^ nat (51 - e) = 2 powi (51 - e)"
    using e_hi by (simp add: power_int_def)
  then have "real_of_int m * u = (2 * of_int k - 1) * (2 powi (51 - e) * 2 powi (e - 52))"
    unfolding m_def u_def by simp
  also have "(2::real) powi (51 - e) * 2 powi (e - 52) = 2 powi (- 1)"
    by (simp flip: power_int_add)
  finally have m_eq: "real_of_int m * u = of_int k - 1 / 2"
    by (simp add: power_int_minus algebra_simps)
  have "real_of_int k - 1 / 2 \<le> real_of_int t / 10" using kl by linarith
  then have "real_of_int m * u \<le> x" using x_ge m_eq by linarith
  then have "real_of_int m \<le> x / u" using upos by (simp add: pos_le_divide_eq)
  then have "m \<le> round_half_even (x / u)" by (rule round_half_even_ge)
  then have "real_of_int m * u \<le> real_of_int (round_half_even (x / u)) * u"
    using upos by simp
  then have lower: "real_of_int k - 1 / 2 \<le> u * real_of_int (round_half_even (x / u))"
    using m_eq by (simp add: mult.commute)
  have "real_of_int (round_half_even (x / u)) * u \<le> (x / u + 1 / 2) * u"
    using round_half_even_le[of "x / u"] upos by (simp only: mult_le_cancel_right_pos)
  also have "\<dots> = x + u / 2" using upos by (simp add: algebra_simps)
  finally have upper: "u * real_of_int (round_half_even (x / u)) \<le> x + u / 2"
    by (simp add: mult.commute)
  have "real_of_int t / 10 \<le> real_of_int k + 4 / 10" using ku by linarith
  then have "x + u / 2 < real_of_int k + 1 / 2" using x_lt u_le by linarith
  with upper have upper': "u * real_of_int (round_half_even (x / u)) < real_of_int k + 1 / 2"
    by linarith
  have "\<lfloor>u * real_of_int (round_half_even (x / u)) + 1 / 2\<rfloor> = k"
    using lower upper' by (intro floor_unique) simp_all
  then show ?thesis
    unfolding number_times_def Math_round_def x_def[symmetric] dr k_def by simp
qed

lemma tenth_rounding_first_failure:
  "Math_round (number_times (of_int 6755399441055744) double_0_10) = 675539944105575"
proof -
  have x: "real_of_int 6755399441055744 * double_0_10 = 10808639105689191 / 16"
    by (simp add: double_0_10_def)
  have "double_round (10808639105689191 / 16)
        = 2 powi (49 - 52) * of_int (round_half_even ((10808639105689191 / 16) / 2 powi (49 - 52)))"
    by (rule double_round_pos) simp_all
  also have "(2::real) powi (49 - 52) = 1 / 8" by (simp add: power_int_minus)
  also have "(10808639105689191 / 16 :: real) / (1 / 8) = 10808639105689191 / 2" by simp
  also have "round_half_even (10808639105689191 / 2) = 5404319552844596"
    by (simp add: round_half_even_def Let_def)
  finally have dr: "double_round (10808639105689191 / 16) = 1351079888211149 / 2" by simp
  show ?thesis unfolding number_times_def x Math_round_def dr by simp
qed


section \<open>Merchant: pricing, status, error sessions and completion\<close>

lemma floor_tenth: "\<lfloor>real_of_int t * (1 / 10) + 1 / 2\<rfloor> = (t + 5) div 10"
proof -
  have "real_of_int t * (1 / 10) + 1 / 2 = real_of_int (t + 5) / real_of_int 10" by simp
  then show ?thesis by (simp only: floor_divide_of_int_eq)
qed

lemma calculateTax_CA:
  "addr_state a = ''CA'' \<Longrightarrow> 0 \<le> t \<Longrightarrow> t < 3 * 2 ^ 51 \<Longrightarrow> calculateTax t (Some a) = (t + 5) div 10"
  by (simp add: calculateTax_def tenth_rounding_exact)

lemma calculateTax_elsewhere:
  "addr_state a \<noteq> ''CA'' \<Longrightarrow> calculateTax t (Some a) = 0"
  "calculateTax t None = 0"
  by (simp_all add: calculateTax_def)

lemma total_amount_calculateTotals:
  "total_amount Tax (calculateTotals lineItems cost addr)
     = max 0 (calculateTax (items_subtotal lineItems + cost) addr)"
  "total_amount Total (calculateTotals lineItems cost addr)
     = items_subtotal lineItems + cost + calculateTax (items_subtotal lineItems + cost) addr"
  by (simp_all add: total_amount_def calculateTotals_def Let_def items_subtotal_def max_def)

lemma california_address_state: "addr_state california_address = ''CA''"
  by (simp add: california_address_def)

lemma scenario_db_item [simp]: "products scenario_db ''item_123'' = Some item_123"
  by (simp add: scenario_db_def)

lemma scenario_build:
  "products db ''item_123'' = Some item_123 \<Longrightarrow>
   validateAndBuildLineItems db uuid two_of_item_123 =
     \<lparr>br_lineItems = [\<lparr>li_id = ''li_'' @ uuid 0, li_item = \<lparr>item_id = ''item_123'', quantity = 2\<rparr>,
                       base_amount = 5998, discount = 0, subtotal = 5998, tax = 0, total = 5998\<rparr>],
      br_errors = [], br_requiresShipping = True\<rparr>"
  by (simp add: validateAndBuildLineItems_def two_of_item_123_def item_123_def
      getProduct_def checkAvailability_def buildLineItem_def calculateLineItem_def Let_def)

lemma scenario_options:
  "generateOptions now True (Some california_address) =
     [\<lparr>fo_type = Shipping, fo_id = ''standard_shipping'', title = ''Standard Shipping'',
       subtitle = Some ''4-5 business days'', carrier = Some ''USPS'',
       earliest_delivery_time = Some (now + 4 * day_ms),
       latest_delivery_time = Some (now + 5 * day_ms),
       fo_subtotal = 500, fo_tax = 50, fo_total = 550\<rparr>,
      \<lparr>fo_type = Shipping, fo_id = ''express_shipping'', title = ''Express Shipping'',
       subtitle = Some ''1-2 business days'', carrier = Some ''FedEx'',
       earliest_delivery_time = Some (now + 1 * day_ms),
       latest_delivery_time = Some (now + 2 * day_ms),
       fo_subtotal = 1500, fo_tax = 150, fo_total = 1650\<rparr>]"
  by (simp add: generateOptions_def Let_def calculateTax_CA california_address_state)

lemma scenario_create_result:
  "status (fst scenario_create) = ready_for_payment"
  "fulfillment_option_id (fst scenario_create) = Some ''standard_shipping''"
  "map fo_total (fulfillment_options (fst scenario_create)) = [550, 1650]"
  "total_amount Total (totals (fst scenario_create)) = 7148"
  "total_amount Tax (totals (fst scenario_create)) = 650"
  by (simp_all add: scenario_create_def createSession_def scenario_build scenario_options Let_def
      selectDefaultOption_def getFulfillmentCost_def truthy_def determineStatus_def
      total_amount_calculateTotals calculateTax_CA california_address_state items_subtotal_def)

text \<open>
  C10, with the range of amounts made explicit. For a Californian address and every taxable
  amount \<open>t\<close> of minor units with \<open>0 \<le> t < 3 \<cdot> 2\<^sup>5\<^sup>1\<close>, the tax that \<^verbatim>\<open>calculateTax\<close> computes
  is \<open>t\<close> times one tenth rounded to the nearest integer, a half going up: an integer number
  of minor units, \<open>(t + 5) div 10\<close>; so 6498 gives 650 and 15 gives 2.
\<close>

theorem calculateTax_california_rounds_to_nearest:
  assumes "addr_state a = ''CA''" and "0 \<le> t" and "t < 3 * 2 ^ 51"
  shows "calculateTax t (Some a) = \<lfloor>real_of_int t * (1 / 10) + 1 / 2\<rfloor>
         \<and> calculateTax t (Some a) = (t + 5) div 10"
  using assms by (simp only: floor_tenth calculateTax_CA)

text \<open>The amounts 6498 and 15 of the examples.\<close>

theorem calculateTax_california_rounds_to_nearest_witness:
  "addr_state california_address = ''CA'' \<and> (0::int) \<le> 6498 \<and> (6498::int) < 3 * 2 ^ 51
   \<and> calculateTax 6498 (Some california_address) = 650
   \<and> calculateTax 15 (Some california_address) = 2"
  using calculateTax_california_rounds_to_nearest [of california_address 6498]
    calculateTax_california_rounds_to_nearest [of california_address 15]
  by (simp add: california_address_state)

text \<open>
  At \<open>t = 3 \<cdot> 2\<^sup>5\<^sup>1 = 6755399441055744\<close> the binary64 product \<^verbatim>\<open>t * 0.10\<close> is rounded up to
  \<open>675539944105574.5\<close>, and \<^verbatim>\<open>Math.round\<close> gives 675539944105575, whereas a tenth of \<open>t\<close>
  is \<open>675539944105574.4\<close>, whose nearest integer is 675539944105574.
\<close>

theorem calculateTax_nearest_counterexample:
  "calculateTax 6755399441055744 (Some california_address)
     \<noteq> \<lfloor>real_of_int 6755399441055744 * (1 / 10) + 1 / 2\<rfloor>"
proof -
  have "calculateTax 6755399441055744 (Some california_address) = 675539944105575"
    using tenth_rounding_first_failure by (simp add: calculateTax_def california_address_state)
  moreover have "\<lfloor>real_of_int 6755399441055744 * (1 / 10) + 1 / 2\<rfloor> = (675539944105574::int)"
    by (simp only: floor_tenth)
  ultimately show ?thesis by simp
qed

lemma calculateTotals_tax_and_total:
  assumes "0 \<le> items_subtotal lineItems + cost" and "items_subtotal lineItems + cost < 3 * 2 ^ 51"
  shows "total_amount Tax (calculateTotals lineItems cost addr)
           = (if (case addr of None \<Rightarrow> False | Some a \<Rightarrow> addr_state a = ''CA'')
              then (items_subtotal lineItems + cost + 5) div 10 else 0)"
    and "total_amount Total (calculateTotals lineItems cost addr)
           = items_subtotal lineItems + cost + total_amount Tax (calculateTotals lineItems cost addr)"
proof -
  have "total_amount Tax (calculateTotals lineItems cost addr)
           = (if (case addr of None \<Rightarrow> False | Some a \<Rightarrow> addr_state a = ''CA'')
              then (items_subtotal lineItems + cost + 5) div 10 else 0)
         \<and> total_amount Total (calculateTotals lineItems cost addr)
           = items_subtotal lineItems + cost + total_amount Tax (calculateTotals lineItems cost addr)"
  proof (cases "case addr of None \<Rightarrow> False | Some a \<Rightarrow> addr_state a = ''CA''")
    case True
    then obtain a where a: "addr = Some a" "addr_state a = ''CA''" by (cases addr) auto
    have "0 \<le> (items_subtotal lineItems + cost + 5) div 10" using assms(1) by simp
    then show ?thesis
      using assms a by (simp add: total_amount_calculateTotals calculateTax_CA)
  next
    case False
    then have "calculateTax (items_subtotal lineItems + cost) addr = 0"
      by (cases addr) (simp_all add: calculateTax_elsewhere)
    with False show ?thesis
      by (simp add: total_amount_calculateTotals)
  qed
  then show "total_amount Tax (calculateTotals lineItems cost addr)
           = (if (case addr of None \<Rightarrow> False | Some a \<Rightarrow> addr_state a = ''CA'')
              then (items_subtotal lineItems + cost + 5) div 10 else 0)"
    and "total_amount Total (calculateTotals lineItems cost addr)
           = items_subtotal lineItems + cost + total_amount Tax (calculateTotals lineItems cost addr)"
    by simp_all
qed

lemma checkIfRequiresShipping_never:
  "checkIfRequiresShipping db lineItems = False"
  by (simp add: checkIfRequiresShipping_def promise_requires_shipping_def list_ex_iff)

lemma determineStatus_ready_iff:
  "determineStatus lineItems requiresShipping addr opt = ready_for_payment
     \<longleftrightarrow> lineItems \<noteq> [] \<and> (\<not> requiresShipping \<or> (addr \<noteq> None \<and> truthy opt))"
  "determineStatus lineItems requiresShipping addr opt \<noteq> ready_for_payment
     \<longleftrightarrow> determineStatus lineItems requiresShipping addr opt = not_ready_for_payment"
  by (auto simp add: determineStatus_def)

lemma loop_requiresShipping_iff:
  "br_requiresShipping (validateAndBuildLineItems_loop db uuid items acc)
     \<longleftrightarrow> br_requiresShipping acc
        \<or> (\<exists>it \<in> set items. \<exists>p. products db (item_id it) = Some p
               \<and> quantity it \<le> available_quantity p \<and> requires_shipping p)"
  by (induction items arbitrary: acc)
     (auto simp add: getProduct_def checkAvailability_def split: option.splits)

lemma build_requiresShipping_iff:
  "br_requiresShipping (validateAndBuildLineItems db uuid items)
     \<longleftrightarrow> (\<exists>it \<in> set items. \<exists>p. products db (item_id it) = Some p
               \<and> quantity it \<le> available_quantity p \<and> requires_shipping p)"
  by (simp add: validateAndBuildLineItems_def loop_requiresShipping_iff)

lemma createSession_status:
  assumes "br_errors (validateAndBuildLineItems db uuid items) = []"
  shows "status (fst (createSession sessionUuid uuid now
                        \<lparr>create_items = items, create_buyer = b,
                         create_fulfillment_address = addr\<rparr> db))
           = ready_for_payment
         \<longleftrightarrow> br_lineItems (validateAndBuildLineItems db uuid items) \<noteq> []
             \<and> (\<not> br_requiresShipping (validateAndBuildLineItems db uuid items)
                 \<or> (addr \<noteq> None
                     \<and> truthy (fulfillment_option_id (fst (createSession sessionUuid uuid now
                          \<lparr>create_items = items, create_buyer = b,
                           create_fulfillment_address = addr\<rparr> db)))))"
  using assms by (simp add: createSession_def Let_def determineStatus_ready_iff)

lemma createSession_shipping_without_address:
  assumes "br_errors (validateAndBuildLineItems db uuid items) = []"
    and "br_requiresShipping (validateAndBuildLineItems db uuid items)"
  shows "status (fst (createSession sessionUuid uuid now
                        \<lparr>create_items = items, create_buyer = b,
                         create_fulfillment_address = None\<rparr> db)) = not_ready_for_payment"
    and "fulfillment_options (fst (createSession sessionUuid uuid now
                        \<lparr>create_items = items, create_buyer = b,
                         create_fulfillment_address = None\<rparr> db)) = []"
  using assms by (simp_all add: createSession_def Let_def determineStatus_def generateOptions_def)

lemma updateSession_with_items_shipping_without_address:
  assumes "getSession now sessionId db = Some existing"
    and "status existing \<noteq> completed" and "status existing \<noteq> canceled"
    and "fulfillment_address existing = None"
    and "br_errors (validateAndBuildLineItems db uuid items) = []"
    and "br_requiresShipping (validateAndBuildLineItems db uuid items)"
  shows "\<exists>s. fst (updateSession uuid now sessionId
                    \<lparr>update_buyer = b, update_items = Some items,
                     update_fulfillment_address = None, update_fulfillment_option_id = opt\<rparr> db)
               = Inr s
             \<and> status s = not_ready_for_payment \<and> fulfillment_options s = []"
  using assms
  by (simp add: updateSession_def Let_def determineStatus_def generateOptions_def first_some_def)

lemma scenario_create_no_address_result:
  "fst scenario_create_no_address =
     \<lparr>cs_id = ''cs_s1'', cs_buyer = None, cs_payment_provider = getPaymentProvider,
      status = not_ready_for_payment, currency = ''usd'',
      line_items = [\<lparr>li_id = ''li_l1'', li_item = \<lparr>item_id = ''item_123'', quantity = 2\<rparr>,
                     base_amount = 5998, discount = 0, subtotal = 5998, tax = 0, total = 5998\<rparr>],
      fulfillment_address = None, fulfillment_options = [], fulfillment_option_id = None,
      totals = calculateTotals
                 [\<lparr>li_id = ''li_l1'', li_item = \<lparr>item_id = ''item_123'', quantity = 2\<rparr>,
                   base_amount = 5998, discount = 0, subtotal = 5998, tax = 0, total = 5998\<rparr>] 0 None,
      messages = generateMessages not_ready_for_payment True None,
      links = generateLinks, cs_order = None\<rparr>"
  "snd scenario_create_no_address = saveSession (fst scenario_create_no_address) scenario_db"
  by (simp_all add: scenario_create_no_address_def createSession_def scenario_build Let_def
      generateOptions_def selectDefaultOption_def getFulfillmentCost_def truthy_def
      determineStatus_def)

lemma scenario_stored_session:
  "getSession now ''cs_s1'' (snd scenario_create_no_address) =
     Some \<lparr>cs_id = ''cs_s1'', cs_buyer = None, cs_payment_provider = getPaymentProvider,
      status = not_ready_for_payment, currency = ''usd'',
      line_items = [\<lparr>li_id = ''li_l1'', li_item = \<lparr>item_id = ''item_123'', quantity = 2\<rparr>,
                     base_amount = 5998, discount = 0, subtotal = 5998, tax = 0, total = 5998\<rparr>],
      fulfillment_address = None,
      fulfillment_options = generateOptions now False None,
      fulfillment_option_id = None,
      totals = calculateTotals
                 [\<lparr>li_id = ''li_l1'', li_item = \<lparr>item_id = ''item_123'', quantity = 2\<rparr>,
                   base_amount = 5998, discount = 0, subtotal = 5998, tax = 0, total = 5998\<rparr>] 0 None,
      messages = [], links = generateLinks, cs_order = None\<rparr>"
  by (simp add: scenario_create_no_address_result getSession_def saveSession_def scenario_db_def
      Let_def truthy_def checkIfRequiresShipping_never getFulfillmentCost_def generateMessages_def)

text \<open>
  C7. The status is derived by \<^verbatim>\<open>determineStatus\<close> as the claim says, from the flag
  \<open>requiresShipping\<close> it is given (\<open>determineStatus_ready_iff\<close>). On a create, and on an
  update that brings items, the flag is computed from the products, and a cart that needs
  shipping and has no address is not ready and has no options
  (\<open>createSession_shipping_without_address\<close>,
  \<open>updateSession_with_items_shipping_without_address\<close>). On an update that brings no
  items the flag comes from \<^verbatim>\<open>checkIfRequiresShipping\<close>, which is always false
  (\<open>checkIfRequiresShipping_never\<close>). So a session created with the physical product
  \<^verbatim>\<open>item_123\<close> and no address is not ready for payment and has no fulfillment options, as
  claimed; but after an update that only sets the buyer the same cart, still without an
  address, has the option of digital delivery, selected, and the status
  \<^verbatim>\<open>ready_for_payment\<close>.
\<close>

theorem update_without_items_forgets_shipping:
  "requires_shipping item_123
   \<and> status (fst scenario_create_no_address) = not_ready_for_payment
   \<and> fulfillment_options (fst scenario_create_no_address) = []
   \<and> (case updateSession (\<lambda>k. ''l2'') 1 ''cs_s1'' buyer_only_update
              (snd scenario_create_no_address) of
         (Inr s, db') \<Rightarrow>
            map (\<lambda>li. item_id (li_item li)) (line_items s) = [''item_123'']
            \<and> fulfillment_address s = None
            \<and> map fo_id (fulfillment_options s) = [''digital_delivery'']
            \<and> fulfillment_option_id s = Some ''digital_delivery''
            \<and> status s = ready_for_payment
       | (Inl e, db') \<Rightarrow> False)"
  by (simp add: item_123_def scenario_create_no_address_result(1) updateSession_def
      scenario_stored_session buyer_only_update_def first_some_def checkIfRequiresShipping_never
      generateOptions_def or_else_def truthy_def selectDefaultOption_def determineStatus_def
      Let_def)

lemma scenario_create_stored_session:
  "getSession now ''cs_s1'' (snd scenario_create) =
     Some \<lparr>cs_id = ''cs_s1'', cs_buyer = None, cs_payment_provider = getPaymentProvider,
      status = ready_for_payment, currency = ''usd'',
      line_items = [\<lparr>li_id = ''li_l1'', li_item = \<lparr>item_id = ''item_123'', quantity = 2\<rparr>,
                     base_amount = 5998, discount = 0, subtotal = 5998, tax = 0, total = 5998\<rparr>],
      fulfillment_address = Some california_address,
      fulfillment_options = generateOptions now False (Some california_address),
      fulfillment_option_id = Some ''standard_shipping'',
      totals = calculateTotals
                 [\<lparr>li_id = ''li_l1'', li_item = \<lparr>item_id = ''item_123'', quantity = 2\<rparr>,
                   base_amount = 5998, discount = 0, subtotal = 5998, tax = 0, total = 5998\<rparr>] 0
                 (Some california_address),
      messages = [], links = generateLinks, cs_order = None\<rparr>"
  by (simp add: scenario_create_def createSession_def scenario_build scenario_options Let_def
      selectDefaultOption_def getFulfillmentCost_def truthy_def determineStatus_def
      getSession_def saveSession_def scenario_db_def checkIfRequiresShipping_never
      generateMessages_def generateOptions_def)

lemma scenario_totals_without_shipping:
  "total_amount Fulfillment
     (calculateTotals
        [\<lparr>li_id = ''li_l1'', li_item = \<lparr>item_id = ''item_123'', quantity = 2\<rparr>,
          base_amount = 5998, discount = 0, subtotal = 5998, tax = 0, total = 5998\<rparr>] 0
        (Some california_address)) = 0"
  "total_amount Tax
     (calculateTotals
        [\<lparr>li_id = ''li_l1'', li_item = \<lparr>item_id = ''item_123'', quantity = 2\<rparr>,
          base_amount = 5998, discount = 0, subtotal = 5998, tax = 0, total = 5998\<rparr>] 0
        (Some california_address)) = 600"
  "total_amount Total
     (calculateTotals
        [\<lparr>li_id = ''li_l1'', li_item = \<lparr>item_id = ''item_123'', quantity = 2\<rparr>,
          base_amount = 5998, discount = 0, subtotal = 5998, tax = 0, total = 5998\<rparr>] 0
        (Some california_address)) = 6598"
  by (simp_all add: total_amount_def calculateTotals_def Let_def calculateTax_CA
      california_address_state)

lemma loop_errors_iff:
  "br_errors (validateAndBuildLineItems_loop db uuid items acc) \<noteq> []
     \<longleftrightarrow> br_errors acc \<noteq> [] \<or> (\<exists>it \<in> set items. item_has_error db it)"
  by (induction items arbitrary: acc)
     (auto simp add: getProduct_def checkAvailability_def item_has_error_def split: option.splits)

lemma loop_errors_are_errors:
  "list_all (\<lambda>m. msg_type m = Error) (br_errors acc) \<Longrightarrow>
   list_all (\<lambda>m. msg_type m = Error) (br_errors (validateAndBuildLineItems_loop db uuid items acc))"
proof (induction items arbitrary: acc)
  case Nil
  then show ?case by simp
next
  case (Cons it items)
  show ?case
    using Cons.prems
    by (auto simp add: getProduct_def checkAvailability_def split: option.splits
             intro!: Cons.IH)
qed

lemma build_errors_iff:
  "br_errors (validateAndBuildLineItems db uuid items) \<noteq> []
     \<longleftrightarrow> (\<exists>it \<in> set items. item_has_error db it)"
  by (simp add: validateAndBuildLineItems_def loop_errors_iff)

lemma build_errors_are_errors:
  "\<forall>m \<in> set (br_errors (validateAndBuildLineItems db uuid items)). msg_type m = Error"
  using loop_errors_are_errors
          [of "\<lparr>br_lineItems = [], br_errors = [], br_requiresShipping = False\<rparr>" db uuid items]
  by (simp add: validateAndBuildLineItems_def list_all_iff)

lemma getSession_route_missing:
  "checkout_sessions db sessionId = None \<Longrightarrow>
   getSession_route now sessionId db =
     (404, ErrorBody (error_object ''invalid_request'' ''session_not_found''
                        ''Checkout session not found'' None))"
  by (simp add: getSession_route_def getSession_def)

lemma error_code_error_object: "error_code (error_object ty cd msg prm) = Some cd"
  by (simp add: error_code_def error_object_def json_members_def obj_get_def)

text \<open>
  C9. When some item of a create or update request has an item-level error, the session
  returned is an error session (no line items, the error messages, status
  \<^verbatim>\<open>not_ready_for_payment\<close>) and the database is left as it was: the id of an error session
  of create, a fresh one, is answered with 404 \<^verbatim>\<open>session_not_found\<close> afterwards, and after
  an update with item errors the stored session reads as before.
\<close>

theorem error_sessions_are_not_persisted:
  assumes "\<exists>it \<in> set items. item_has_error db it"
  shows "(case createSession sessionUuid uuid now
                \<lparr>create_items = items, create_buyer = b, create_fulfillment_address = addr\<rparr> db of
            (s, db') \<Rightarrow>
               db' = db \<and> cs_id s = ''cs_'' @ sessionUuid \<and> line_items s = []
               \<and> status s = not_ready_for_payment \<and> messages s \<noteq> []
               \<and> (\<forall>m \<in> set (messages s). msg_type m = Error)
               \<and> (checkout_sessions db (''cs_'' @ sessionUuid) = None \<longrightarrow>
                    (\<exists>body. getSession_route later (cs_id s) db' = (404, ErrorBody body)
                            \<and> error_code body = Some ''session_not_found'')))
         \<and> (\<forall>existing. getSession now sessionId db = Some existing
                \<and> status existing \<noteq> completed \<and> status existing \<noteq> canceled \<longrightarrow>
              (case updateSession uuid now sessionId
                      \<lparr>update_buyer = b, update_items = Some items,
                       update_fulfillment_address = addr, update_fulfillment_option_id = opt\<rparr> db of
                 (r, db') \<Rightarrow>
                    db' = db
                    \<and> (\<exists>s. r = Inr s \<and> cs_id s = sessionId \<and> line_items s = []
                            \<and> status s = not_ready_for_payment \<and> messages s \<noteq> []
                            \<and> (\<forall>m \<in> set (messages s). msg_type m = Error))
                    \<and> getSession later sessionId db' = getSession later sessionId db))"
proof -
  have e: "br_errors (validateAndBuildLineItems db uuid items) \<noteq> []"
    using assms by (simp add: build_errors_iff)
  have t: "\<forall>m \<in> set (br_errors (validateAndBuildLineItems db uuid items)). msg_type m = Error"
    by (rule build_errors_are_errors)
  have c: "createSession sessionUuid uuid now
             \<lparr>create_items = items, create_buyer = b, create_fulfillment_address = addr\<rparr> db
           = (buildErrorSession (''cs_'' @ sessionUuid) b addr
                (br_errors (validateAndBuildLineItems db uuid items)), db)"
    using e by (simp add: createSession_def Let_def)
  have u: "updateSession uuid now sessionId
             \<lparr>update_buyer = b, update_items = Some items,
              update_fulfillment_address = addr, update_fulfillment_option_id = opt\<rparr> db
           = (Inr (buildErrorSession sessionId b addr
                     (br_errors (validateAndBuildLineItems db uuid items))), db)"
    if "getSession now sessionId db = Some existing" "status existing \<noteq> completed"
       "status existing \<noteq> canceled" for existing
    using e that by (simp add: updateSession_def Let_def)
  show ?thesis
    using e t by (auto simp add: c u buildErrorSession_def getSession_route_missing
        error_code_error_object)
qed


lemma missing_item_has_error: "item_has_error scenario_db missing_item"
  "item_has_error (snd scenario_create_no_address) missing_item"
  by (simp_all add: item_has_error_def scenario_db_def missing_item_def
      scenario_create_no_address_result saveSession_def)

lemma scenario_cs_s2_fresh: "checkout_sessions (snd scenario_create_no_address) ''cs_s2'' = None"
  by (simp add: scenario_create_no_address_result saveSession_def scenario_db_def)

text \<open>A request for a product that is not in the catalog, on the database of the scenario.\<close>

theorem error_sessions_are_not_persisted_witness:
  "(\<exists>it \<in> set [missing_item]. item_has_error (snd scenario_create_no_address) it)
   \<and> snd (createSession ''s2'' (\<lambda>k. ''l2'') 5
             \<lparr>create_items = [missing_item], create_buyer = None,
              create_fulfillment_address = None\<rparr> (snd scenario_create_no_address))
       = snd scenario_create_no_address
   \<and> fst (getSession_route 6 ''cs_s2'' (snd scenario_create_no_address)) = 404
   \<and> snd (updateSession (\<lambda>k. ''l2'') 5 ''cs_s1''
             \<lparr>update_buyer = None, update_items = Some [missing_item],
              update_fulfillment_address = None, update_fulfillment_option_id = None\<rparr>
             (snd scenario_create_no_address)) = snd scenario_create_no_address"
  using error_sessions_are_not_persisted
          [where items = "[missing_item]" and db = "snd scenario_create_no_address"
             and sessionUuid = "''s2''" and uuid = "\<lambda>k. ''l2''" and now = 5 and b = None
             and addr = None and later = 6 and sessionId = "''cs_s1''" and opt = None]
  by (auto simp add: missing_item_has_error scenario_stored_session scenario_cs_s2_fresh
      split: prod.splits)

lemma getSession_status:
  "getSession now sessionId db = Some s \<Longrightarrow>
   \<exists>row. checkout_sessions db sessionId = Some row \<and> status s = row_status row"
  by (auto simp add: getSession_def Let_def split: option.splits)

lemma getSession_exists:
  "checkout_sessions db sessionId = Some row \<Longrightarrow> \<exists>s. getSession now sessionId db = Some s"
  by (simp add: getSession_def Let_def)

lemma transaction_rolled_back: "transaction qs db = (False, db') \<Longrightarrow> db' = db"
  by (auto simp add: transaction_def split: prod.splits bool.splits)

lemma complete_transaction_result:
  "transaction [insert_order row, update_session_completed sessionId orderId b] db = (True, db') \<Longrightarrow>
   db_checkout_session_id row = sessionId \<Longrightarrow> db_order_id row = orderId \<Longrightarrow>
   orders db orderId = None
   \<and> (\<exists>orow. orders db' = (orders db)(orderId \<mapsto> orow)
              \<and> db_checkout_session_id orow = sessionId)
   \<and> (\<exists>srow. checkout_sessions db' sessionId = Some srow \<and> row_status srow = completed
              \<and> row_order_id srow = Some orderId)"
  by (auto simp add: transaction_def insert_order_def update_session_completed_def
      split: if_splits option.splits prod.splits bool.splits)

text \<open>
  C6. \<^verbatim>\<open>completeSession\<close> succeeds only on a session whose status is
  \<^verbatim>\<open>ready_for_payment\<close> and whose payment intent came back completed; then the order row is
  inserted and the row of the session has the status \<^verbatim>\<open>completed\<close> and the id of the order,
  both through the one transaction. Every failure leaves the database as it was: a payment
  intent with another status makes the call fail before any statement, with the stored
  session unchanged, and when the update of the session raises after the insert of the order
  has passed, the order row is taken back with the rest of the transaction.
\<close>

theorem completeSession_all_or_nothing:
  "(case completeSession psp orderUuid now sessionId request db of
      (Inr s, db') \<Rightarrow>
         (\<exists>before paymentIntent.
             getSession now sessionId db = Some before \<and> status before = ready_for_payment
             \<and> psp \<lparr>shared_payment_token = token (complete_payment_data request),
                    pp_amount = total_amount Total (totals before),
                    pp_currency = currency before\<rparr> = Inr paymentIntent
             \<and> pi_status paymentIntent = Completed)
         \<and> orders db (''order_'' @ orderUuid) = None
         \<and> (\<exists>orow srow.
               orders db' = (orders db)(''order_'' @ orderUuid \<mapsto> orow)
               \<and> db_checkout_session_id orow = sessionId
               \<and> checkout_sessions db' sessionId = Some srow
               \<and> row_status srow = completed
               \<and> row_order_id srow = Some (''order_'' @ orderUuid))
         \<and> status s = completed
    | (Inl e, db') \<Rightarrow> db' = db)
   \<and> (\<forall>before paymentIntent.
         getSession now sessionId db = Some before \<and> status before = ready_for_payment
         \<and> psp \<lparr>shared_payment_token = token (complete_payment_data request),
                pp_amount = total_amount Total (totals before),
                pp_currency = currency before\<rparr> = Inr paymentIntent
         \<and> pi_status paymentIntent \<noteq> Completed \<longrightarrow>
         completeSession psp orderUuid now sessionId request db
           = (Inl (Payment_processing_failed (pi_status paymentIntent)), db))"
proof (intro conjI allI impI)
  show "completeSession psp orderUuid now sessionId request db
          = (Inl (Payment_processing_failed (pi_status paymentIntent)), db)"
    if "getSession now sessionId db = Some before \<and> status before = ready_for_payment
         \<and> psp \<lparr>shared_payment_token = token (complete_payment_data request),
                pp_amount = total_amount Total (totals before),
                pp_currency = currency before\<rparr> = Inr paymentIntent
         \<and> pi_status paymentIntent \<noteq> Completed" for before paymentIntent
    using that by (simp add: completeSession_def Let_def)
next
  show "case completeSession psp orderUuid now sessionId request db of
      (Inr s, db') \<Rightarrow>
         (\<exists>before paymentIntent.
             getSession now sessionId db = Some before \<and> status before = ready_for_payment
             \<and> psp \<lparr>shared_payment_token = token (complete_payment_data request),
                    pp_amount = total_amount Total (totals before),
                    pp_currency = currency before\<rparr> = Inr paymentIntent
             \<and> pi_status paymentIntent = Completed)
         \<and> orders db (''order_'' @ orderUuid) = None
         \<and> (\<exists>orow srow.
               orders db' = (orders db)(''order_'' @ orderUuid \<mapsto> orow)
               \<and> db_checkout_session_id orow = sessionId
               \<and> checkout_sessions db' sessionId = Some srow
               \<and> row_status srow = completed
               \<and> row_order_id srow = Some (''order_'' @ orderUuid))
         \<and> status s = completed
    | (Inl e, db') \<Rightarrow> db' = db"
  proof (cases "getSession now sessionId db")
    case None
    then show ?thesis by (simp add: completeSession_def)
  next
    case (Some session)
    show ?thesis
    proof (cases "status session = ready_for_payment")
      case False
      with Some show ?thesis by (simp add: completeSession_def)
    next
      case True
      let ?req = "\<lparr>shared_payment_token = token (complete_payment_data request),
                    pp_amount = total_amount Total (totals session),
                    pp_currency = currency session\<rparr>"
      show ?thesis
      proof (cases "psp ?req")
        case (Inl rejected)
        with Some True show ?thesis
          by (cases rejected) (simp add: completeSession_def Let_def)
      next
        case (Inr paymentIntent)
        show ?thesis
        proof (cases "pi_status paymentIntent = Completed")
          case False
          with Some True Inr show ?thesis by (simp add: completeSession_def Let_def)
        next
          case C: True
          let ?orderId = "''order_'' @ orderUuid"
          let ?row = "\<lparr>db_order_id = ?orderId, db_checkout_session_id = sessionId,
                        db_permalink_url = ''https://merchant.example.com/orders/'' @ ?orderId,
                        payment_token = token (complete_payment_data request),
                        db_payment_provider = pd_provider (complete_payment_data request),
                        db_billing_address = billing_address (complete_payment_data request)\<rparr>"
          let ?b = "first_some (complete_buyer request) (cs_buyer session)"
          obtain ok db' where t: "transaction [insert_order ?row,
                           update_session_completed sessionId ?orderId ?b] db = (ok, db')"
            by (cases "transaction [insert_order ?row,
                           update_session_completed sessionId ?orderId ?b] db")
          show ?thesis
          proof (cases ok)
            case False
            with t have "db' = db" by (simp add: transaction_rolled_back)
            with Some True Inr C t False show ?thesis by (simp add: completeSession_def Let_def)
          next
            case ok: True
            with t have t': "transaction [insert_order ?row,
                           update_session_completed sessionId ?orderId ?b] db = (True, db')"
              by simp
            from complete_transaction_result[OF t']
            have r: "orders db ?orderId = None"
              and "\<exists>orow. orders db' = (orders db)(?orderId \<mapsto> orow)
                     \<and> db_checkout_session_id orow = sessionId"
              and "\<exists>srow. checkout_sessions db' sessionId = Some srow \<and> row_status srow = completed
                     \<and> row_order_id srow = Some ?orderId"
              by simp_all
            then obtain orow srow where orow: "orders db' = (orders db)(?orderId \<mapsto> orow)"
              "db_checkout_session_id orow = sessionId"
              and srow: "checkout_sessions db' sessionId = Some srow"
              "row_status srow = completed" "row_order_id srow = Some ?orderId" by blast
            obtain s where s: "getSession now sessionId db' = Some s"
              using getSession_exists[OF srow(1)] by blast
            have st: "status s = completed" using getSession_status[OF s] srow by simp
            have ex: "\<exists>orow srow.
               orders db' = (orders db)(?orderId \<mapsto> orow)
               \<and> db_checkout_session_id orow = sessionId
               \<and> checkout_sessions db' sessionId = Some srow
               \<and> row_status srow = completed
               \<and> row_order_id srow = Some ?orderId"
              by (rule exI[of _ orow], rule exI[of _ srow]) (simp add: orow srow)
            have res: "completeSession psp orderUuid now sessionId request db = (Inr s, db')"
              using \<open>getSession now sessionId db = Some session\<close> True Inr C t ok s
              by (simp add: completeSession_def Let_def)
            show ?thesis
              unfolding res
              using \<open>getSession now sessionId db = Some session\<close> True Inr C r(1) ex st
              by simp
          qed
        qed
      qed
    qed
  qed
qed


lemma scenario_create_snd:
  "snd scenario_create = saveSession (fst scenario_create) scenario_db"
  "cs_id (fst scenario_create) = ''cs_s1''"
  by (simp_all add: scenario_create_def createSession_def scenario_build Let_def)

lemma scenario_create_stored:
  "\<exists>row. checkout_sessions (snd scenario_create) ''cs_s1'' = Some row
          \<and> row_status row = ready_for_payment"
  "orders (snd scenario_create) ''order_o1'' = None"
  by (simp_all add: scenario_create_snd saveSession_def scenario_create_result scenario_db_def)

text \<open>
  The session of the scenario, completed with a PSP that completes and with one that fails;
  and completed, the payment passed, for a buyer whose first name does not fit its column:
  the insert of the order passes, the update of the session raises, and no order is left.
\<close>

theorem completeSession_all_or_nothing_witness:
  "(case completeSession psp_completes ''o1'' 10 ''cs_s1'' pay_with_vt_1 (snd scenario_create) of
      (Inr s, db') \<Rightarrow> status s = completed \<and> orders db' ''order_o1'' \<noteq> None
    | (Inl e, db') \<Rightarrow> False)
   \<and> completeSession psp_fails ''o1'' 10 ''cs_s1'' pay_with_vt_1 (snd scenario_create)
       = (Inl (Payment_processing_failed Failed), snd scenario_create)
   \<and> (case insert_order
              \<lparr>db_order_id = ''order_o1'', db_checkout_session_id = ''cs_s1'',
                db_permalink_url = ''https://merchant.example.com/orders/order_o1'',
                payment_token = ''vt_1'', db_payment_provider = ''stripe'',
                db_billing_address = None\<rparr> (snd scenario_create) of
         None \<Rightarrow> False
       | Some db1 \<Rightarrow>
           orders db1 ''order_o1'' \<noteq> None
           \<and> update_session_completed ''cs_s1'' ''order_o1'' (complete_buyer pay_with_long_name) db1
               = None)
   \<and> completeSession psp_completes ''o1'' 10 ''cs_s1'' pay_with_long_name (snd scenario_create)
       = (Inl Database_error, snd scenario_create)
   \<and> orders (snd scenario_create) ''order_o1'' = None"
proof -
  let ?row = "\<lparr>db_order_id = ''order_o1'', db_checkout_session_id = ''cs_s1'',
                db_permalink_url = ''https://merchant.example.com/orders/order_o1'',
                payment_token = ''vt_1'', db_payment_provider = ''stripe'',
                db_billing_address = None\<rparr>"
  obtain row where row: "checkout_sessions (snd scenario_create) ''cs_s1'' = Some row"
    "row_status row = ready_for_payment"
    using scenario_create_stored(1) by blast
  obtain before where b: "getSession 10 ''cs_s1'' (snd scenario_create) = Some before"
    using getSession_exists[OF row(1)] by blast
  have st: "status before = ready_for_payment"
    using getSession_status[OF b] row by simp
  have fails: "completeSession psp_fails ''o1'' 10 ''cs_s1'' pay_with_vt_1 (snd scenario_create)
                 = (Inl (Payment_processing_failed Failed), snd scenario_create)"
    using completeSession_all_or_nothing
            [where psp = psp_fails and orderUuid = "''o1''" and now = 10 and sessionId = "''cs_s1''"
               and request = pay_with_vt_1 and db = "snd scenario_create"]
          b st
    by (simp add: psp_fails_def)
  obtain db1 where i: "insert_order ?row (snd scenario_create) = Some db1"
    and i1: "checkout_sessions db1 ''cs_s1'' = Some row" "orders db1 ''order_o1'' \<noteq> None"
    using row scenario_create_stored(2) by (simp add: insert_order_def varchar_def)
  have long: "varchar 255 (replicate 256 CHR ''x'') = None"
    by (simp add: varchar_def)
  have u: "update_session_completed ''cs_s1'' ''order_o1'' (complete_buyer pay_with_long_name) db1
             = None"
    using i1(1) by (simp add: update_session_completed_def pay_with_long_name_def
        varchar_null_def long)
  obtain db' where t: "transaction
          [insert_order ?row,
           update_session_completed ''cs_s1'' ''order_o1'' (first_some None (cs_buyer before))]
          (snd scenario_create) = (True, db')"
  proof -
    have "cs_buyer before = None"
      using b by (auto simp add: scenario_create_stored_session)
    then show ?thesis
      using i i1(1) that
      by (simp add: transaction_def update_session_completed_def first_some_def
          varchar_null_def)
  qed
  from complete_transaction_result[OF t]
  obtain srow where srow: "checkout_sessions db' ''cs_s1'' = Some srow"
    and o: "orders db' ''order_o1'' \<noteq> None"
    by auto
  obtain s where s: "getSession 10 ''cs_s1'' db' = Some s"
    using getSession_exists[OF srow] by blast
  have res: "completeSession psp_completes ''o1'' 10 ''cs_s1'' pay_with_vt_1 (snd scenario_create)
               = (Inr s, db')"
    using b st t s
    by (simp add: completeSession_def Let_def psp_completes_def pay_with_vt_1_def)
  have raised: "fst (completeSession psp_completes ''o1'' 10 ''cs_s1'' pay_with_long_name
                       (snd scenario_create)) = Inl Database_error"
    using b st i u
    by (simp add: completeSession_def Let_def psp_completes_def pay_with_long_name_def
        first_some_def transaction_def)
  have rolled: "completeSession psp_completes ''o1'' 10 ''cs_s1'' pay_with_long_name
                  (snd scenario_create) = (Inl Database_error, snd scenario_create)"
    using completeSession_all_or_nothing
            [where psp = psp_completes and orderUuid = "''o1''" and now = 10
               and sessionId = "''cs_s1''" and request = pay_with_long_name
               and db = "snd scenario_create"]
          raised
    by (cases "completeSession psp_completes ''o1'' 10 ''cs_s1'' pay_with_long_name
                 (snd scenario_create)") auto
  have both: "case insert_order ?row (snd scenario_create) of
         None \<Rightarrow> False
       | Some db1 \<Rightarrow>
           orders db1 ''order_o1'' \<noteq> None
           \<and> update_session_completed ''cs_s1'' ''order_o1'' (complete_buyer pay_with_long_name) db1
               = None"
    using i i1(2) u by simp
  show ?thesis
    using completeSession_all_or_nothing
            [where psp = psp_completes and orderUuid = "''o1''" and now = 10
               and sessionId = "''cs_s1''" and request = pay_with_vt_1
               and db = "snd scenario_create"]
          fails o rolled both scenario_create_stored(2)
    by (simp add: res)
qed


lemma scenario_complete_6598:
  assumes "psp \<lparr>shared_payment_token = ''vt_1'', pp_amount = 6598, pp_currency = ''usd''\<rparr>
             = Inr paymentIntent"
  shows "pi_status paymentIntent = Completed \<Longrightarrow>
         \<exists>s db'. completeSession psp ''o1'' 10 ''cs_s1'' pay_with_vt_1 (snd scenario_create)
                   = (Inr s, db') \<and> status s = completed"
    and "pi_status paymentIntent \<noteq> Completed \<Longrightarrow>
         fst (completeSession psp ''o1'' 10 ''cs_s1'' pay_with_vt_1 (snd scenario_create))
           = Inl (Payment_processing_failed (pi_status paymentIntent))"
proof -
  show "fst (completeSession psp ''o1'' 10 ''cs_s1'' pay_with_vt_1 (snd scenario_create))
           = Inl (Payment_processing_failed (pi_status paymentIntent))"
    if "pi_status paymentIntent \<noteq> Completed"
    using assms that
    by (simp add: completeSession_def scenario_create_stored_session
        scenario_totals_without_shipping pay_with_vt_1_def Let_def)
  show "\<exists>s db'. completeSession psp ''o1'' 10 ''cs_s1'' pay_with_vt_1 (snd scenario_create)
                   = (Inr s, db') \<and> status s = completed"
    if c: "pi_status paymentIntent = Completed"
  proof -
    obtain row where row: "checkout_sessions (snd scenario_create) ''cs_s1'' = Some row"
      using scenario_create_stored(1) by blast
    obtain db' where t: "transaction
          [insert_order \<lparr>db_order_id = ''order_o1'', db_checkout_session_id = ''cs_s1'',
                          db_permalink_url = ''https://merchant.example.com/orders/order_o1'',
                          payment_token = ''vt_1'', db_payment_provider = ''stripe'',
                          db_billing_address = None\<rparr>,
           update_session_completed ''cs_s1'' ''order_o1'' None]
          (snd scenario_create) = (True, db')"
      using row scenario_create_stored(2)
      by (simp add: transaction_def insert_order_def update_session_completed_def varchar_def
          varchar_null_def)
    from complete_transaction_result[OF t]
    obtain srow where srow: "checkout_sessions db' ''cs_s1'' = Some srow"
      "row_status srow = completed"
      by auto
    obtain s where s: "getSession 10 ''cs_s1'' db' = Some s"
      using getSession_exists[OF srow(1)] by blast
    have "status s = completed" using getSession_status[OF s] srow by simp
    moreover have "completeSession psp ''o1'' 10 ''cs_s1'' pay_with_vt_1 (snd scenario_create)
                     = (Inr s, db')"
      using assms c t s
      by (simp add: completeSession_def scenario_create_stored_session
          scenario_totals_without_shipping pay_with_vt_1_def Let_def first_some_def)
    ultimately show ?thesis by simp
  qed
qed

text \<open>
  C8. \<^verbatim>\<open>calculateTotals\<close> computes the tax as claimed from the fulfillment cost that it is
  given (\<open>calculateTotals_tax_and_total\<close>), and the response to the creation of a session
  with two \<^verbatim>\<open>item_123\<close> at 2999 and a Californian address shows the standard shipping option
  at 500 and the total 5998 + 500 + 650 = 7148. But a stored session is read with the flag
  \<open>requiresShipping\<close> of \<^verbatim>\<open>checkIfRequiresShipping\<close>, which is always false (see C7). Read
  back by \<^verbatim>\<open>getSession\<close>, the same session offers digital delivery only; its selected
  option \<^verbatim>\<open>standard_shipping\<close> is not among the options and costs 0, the tax is 600 and the
  total 6598, and this is the amount that \<^verbatim>\<open>completeSession\<close> sends to the PSP. The same
  total results when the Californian address arrives with an update of a session created
  without one.
\<close>

theorem california_order_is_charged_6598:
  "total_amount Total (totals (fst scenario_create)) = 7148
   \<and> (case getSession 1 ''cs_s1'' (snd scenario_create) of
         None \<Rightarrow> False
       | Some s \<Rightarrow>
           map (\<lambda>li. (item_id (li_item li), quantity (li_item li), base_amount li)) (line_items s)
             = [(''item_123'', 2, 5998)]
           \<and> fulfillment_address s = Some california_address
           \<and> fulfillment_option_id s = Some ''standard_shipping''
           \<and> map fo_id (fulfillment_options s) = [''digital_delivery'']
           \<and> total_amount Fulfillment (totals s) = 0
           \<and> total_amount Tax (totals s) = 600
           \<and> total_amount Total (totals s) = 6598)
   \<and> (case updateSession (\<lambda>k. ''l2'') 1 ''cs_s1'' address_update
              (snd scenario_create_no_address) of
         (Inr s, db') \<Rightarrow>
           map (\<lambda>li. (item_id (li_item li), quantity (li_item li), base_amount li)) (line_items s)
             = [(''item_123'', 2, 5998)]
           \<and> fulfillment_address s = Some california_address
           \<and> map fo_id (fulfillment_options s) = [''digital_delivery'']
           \<and> fulfillment_option_id s = Some ''digital_delivery''
           \<and> status s = ready_for_payment
           \<and> total_amount Tax (totals s) = 600
           \<and> total_amount Total (totals s) = 6598
       | (Inl e, db') \<Rightarrow> False)
   \<and> (case completeSession (psp_expects 6598) ''o1'' 10 ''cs_s1'' pay_with_vt_1
              (snd scenario_create) of
         (Inr s, db') \<Rightarrow> status s = completed
       | (Inl e, db') \<Rightarrow> False)
   \<and> fst (completeSession (psp_expects 7148) ''o1'' 10 ''cs_s1'' pay_with_vt_1
              (snd scenario_create))
       = Inl (Payment_processing_failed Failed)"
proof (intro conjI)
  show "total_amount Total (totals (fst scenario_create)) = 7148"
    by (rule scenario_create_result(4))
  show "case getSession 1 ''cs_s1'' (snd scenario_create) of
         None \<Rightarrow> False
       | Some s \<Rightarrow>
           map (\<lambda>li. (item_id (li_item li), quantity (li_item li), base_amount li)) (line_items s)
             = [(''item_123'', 2, 5998)]
           \<and> fulfillment_address s = Some california_address
           \<and> fulfillment_option_id s = Some ''standard_shipping''
           \<and> map fo_id (fulfillment_options s) = [''digital_delivery'']
           \<and> total_amount Fulfillment (totals s) = 0
           \<and> total_amount Tax (totals s) = 600
           \<and> total_amount Total (totals s) = 6598"
    by (simp add: scenario_create_stored_session scenario_totals_without_shipping
        generateOptions_def)
  show "case updateSession (\<lambda>k. ''l2'') 1 ''cs_s1'' address_update
              (snd scenario_create_no_address) of
         (Inr s, db') \<Rightarrow>
           map (\<lambda>li. (item_id (li_item li), quantity (li_item li), base_amount li)) (line_items s)
             = [(''item_123'', 2, 5998)]
           \<and> fulfillment_address s = Some california_address
           \<and> map fo_id (fulfillment_options s) = [''digital_delivery'']
           \<and> fulfillment_option_id s = Some ''digital_delivery''
           \<and> status s = ready_for_payment
           \<and> total_amount Tax (totals s) = 600
           \<and> total_amount Total (totals s) = 6598
       | (Inl e, db') \<Rightarrow> False"
    by (simp add: updateSession_def scenario_stored_session address_update_def first_some_def
        checkIfRequiresShipping_never generateOptions_def or_else_def truthy_def
        selectDefaultOption_def getFulfillmentCost_def determineStatus_def Let_def
        scenario_totals_without_shipping)
  have c: "psp_expects 6598 \<lparr>shared_payment_token = ''vt_1'', pp_amount = 6598, pp_currency = ''usd''\<rparr>
             = Inr \<lparr>pi_id = ''pi_1'', pi_status = Completed, pi_amount = 6598,
                    pi_currency = ''usd'', pi_vault_token_id = ''vt_1'', pi_created = 0,
                    pi_completed_at = Some 2000, pi_metadata = JObject []\<rparr>"
    by (simp add: psp_expects_def psp_completes_def)
  have f: "psp_expects 7148 \<lparr>shared_payment_token = ''vt_1'', pp_amount = 6598, pp_currency = ''usd''\<rparr>
             = Inr \<lparr>pi_id = ''pi_1'', pi_status = Failed, pi_amount = 6598,
                    pi_currency = ''usd'', pi_vault_token_id = ''vt_1'', pi_created = 0,
                    pi_completed_at = None, pi_metadata = JObject []\<rparr>"
    by (simp add: psp_expects_def psp_fails_def)
  show "case completeSession (psp_expects 6598) ''o1'' 10 ''cs_s1'' pay_with_vt_1
              (snd scenario_create) of
         (Inr s, db') \<Rightarrow> status s = completed
       | (Inl e, db') \<Rightarrow> False"
    using scenario_complete_6598(1)[where psp = "psp_expects 6598", OF c] by auto
  show "fst (completeSession (psp_expects 7148) ''o1'' 10 ''cs_s1'' pay_with_vt_1
              (snd scenario_create))
       = Inl (Payment_processing_failed Failed)"
    using scenario_complete_6598(2)[where psp = "psp_expects 7148", OF f] by simp
qed


section \<open>PSP: payment intents\<close>

lemma failure_leaves_database:
  "createAndProcessPaymentIntent c db = (Inl e, db') \<Longrightarrow> db' = db"
  by (auto simp add: createAndProcessPaymentIntent_def Let_def split: sum.splits option.splits)

lemma consumed_token_rejected:
  assumes "vault_tokens db (cpi_shared_payment_token (call_request c)) = Some tok"
    and "vt_status tok = Consumed"
  shows "createAndProcessPaymentIntent c db =
           (Inl (Thrown 400 (error_object ''invalid_request'' ''vault_token_already_used''
                   ''Vault token has already been used'' (Some ''shared_payment_token''))), db)"
  using assms by (simp add: createAndProcessPaymentIntent_def validateVaultToken_def Let_def)

lemma success_consumes_token:
  assumes "createAndProcessPaymentIntent c db = (Inr r, db')"
  shows "\<exists>tok. vault_tokens db' (cpi_shared_payment_token (call_request c)) = Some tok
               \<and> vt_status tok = Consumed"
  using assms
  by (auto simp add: createAndProcessPaymentIntent_def validateVaultToken_def Let_def
      insert_payment_intent_def mark_payment_completed_def invalidateVaultToken_def
      split: sum.splits option.splits if_splits)

lemma cpi_step_keeps_consumed:
  assumes "vault_tokens db v = Some tok" and "vt_status tok = Consumed"
  shows "\<exists>tok'. vault_tokens (snd (cpi_step c pt db)) v = Some tok' \<and> vt_status tok' = Consumed"
  using assms
  by (cases pt)
     (auto simp add: cpi_step_def Let_def insert_payment_intent_def mark_payment_completed_def
       invalidateVaultToken_def split: sum.splits option.splits if_splits)

lemma createVaultToken_keeps_consumed:
  assumes "vault_tokens db v = Some tok" and "vt_status tok = Consumed"
    and "createVaultToken randomId created key requestId data db = Inr (r, db')"
  shows "vault_tokens db' v = Some tok"
  using assms by (auto simp add: createVaultToken_def Let_def split: if_splits)

lemma steps_in_sequence:
  "run_schedule [c] [0, 0, 0, 0] ([At_start], db)
     = ([Returned (fst (createAndProcessPaymentIntent c db))],
        snd (createAndProcessPaymentIntent c db))"
  by (simp add: cpi_step_def createAndProcessPaymentIntent_def Let_def
      split: sum.splits option.splits)

lemma tokens_spent_once_call:
  assumes "tokens_spent_once db"
  shows "tokens_spent_once (snd (createAndProcessPaymentIntent c db))"
proof (cases "fst (createAndProcessPaymentIntent c db)")
  case (Inl e)
  then have "snd (createAndProcessPaymentIntent c db) = db"
    using failure_leaves_database[of c db e "snd (createAndProcessPaymentIntent c db)"]
    by (simp add: prod_eq_iff)
  with assms show ?thesis by simp
next
  case (Inr r)
  let ?v = "cpi_shared_payment_token (call_request c)"
  let ?p = "''pi_'' @ call_randomId c"
  obtain tok where tok: "vault_tokens db ?v = Some tok" "vt_status tok \<noteq> Consumed"
    and fresh: "payment_intents db ?p = None"
    and db': "snd (createAndProcessPaymentIntent c db)
               = invalidateVaultToken ?v
                   (mark_payment_completed ?p (call_completedAt c)
                      (the (insert_payment_intent ?p (call_request c) tok (call_now c) db)))"
    using Inr
    by (auto simp add: createAndProcessPaymentIntent_def validateVaultToken_def Let_def
        insert_payment_intent_def split: sum.splits option.splits if_splits)
  have unused: "row_vault_token_id row \<noteq> ?v" if "payment_intents db pid = Some row" for pid row
    using assms that tok unfolding tokens_spent_once_def by force
  show ?thesis
    unfolding db' tokens_spent_once_def
    using assms tok fresh unused
    unfolding tokens_spent_once_def
    by (auto simp add: insert_payment_intent_def mark_payment_completed_def
        invalidateVaultToken_def split: if_splits) blast+
qed

lemma tokens_spent_once_run_calls:
  "tokens_spent_once db \<Longrightarrow> tokens_spent_once (run_calls cs db)"
  by (induction cs arbitrary: db) (simp_all add: tokens_spent_once_call)

lemma tokens_spent_once_no_intents:
  "payment_intents db = Map.empty \<Longrightarrow> tokens_spent_once db"
  by (simp add: tokens_spent_once_def)

lemma tokens_spent_once_completed:
  assumes "tokens_spent_once db" and "p \<in> completed_intents db v" and "q \<in> completed_intents db v"
  shows "p = q"
  using assms unfolding tokens_spent_once_def completed_intents_def by blast

lemma calls_in_sequence_spend_a_token_once:
  assumes "payment_intents db = Map.empty"
    and "p \<in> completed_intents (run_calls cs db) v" and "q \<in> completed_intents (run_calls cs db) v"
  shows "p = q"
  using tokens_spent_once_completed
          [OF tokens_spent_once_run_calls[OF tokens_spent_once_no_intents[OF assms(1)]] assms(2,3)] .

text \<open>
  C5, with the order of the checks made explicit. For a vault token that exists, is not
  consumed and has not expired: an amount above \<^verbatim>\<open>allowance.max_amount\<close> fails with
  \<^verbatim>\<open>amount_exceeds_allowance\<close>; an amount within the allowance with a currency other than
  \<^verbatim>\<open>allowance.currency\<close> fails with \<^verbatim>\<open>currency_mismatch\<close>. Whatever the token and the
  request, a call that fails leaves the database, and so the payment intents, as they were.
\<close>

theorem payment_details_are_checked_before_the_insert:
  assumes "vault_tokens db (cpi_shared_payment_token (call_request c)) = Some tok"
    and "vt_status tok \<noteq> Consumed"
    and "\<not> expires_at (vt_allowance tok) < call_now c"
  shows "(max_amount (vt_allowance tok) < cpi_amount (call_request c) \<longrightarrow>
            (\<exists>body. createAndProcessPaymentIntent c db = (Inl (Thrown 400 body), db)
                    \<and> error_code body = Some ''amount_exceeds_allowance''))
         \<and> (\<not> max_amount (vt_allowance tok) < cpi_amount (call_request c)
              \<and> cpi_currency (call_request c) \<noteq> allowance_currency (vt_allowance tok) \<longrightarrow>
            (\<exists>body. createAndProcessPaymentIntent c db = (Inl (Thrown 400 body), db)
                    \<and> error_code body = Some ''currency_mismatch''))
         \<and> (\<forall>e db'. createAndProcessPaymentIntent c db = (Inl e, db') \<longrightarrow>
               db' = db \<and> payment_intents db' = payment_intents db)"
  using assms
  by (auto simp add: createAndProcessPaymentIntent_def validateVaultToken_def
      validatePaymentDetails_def error_code_error_object Let_def
      split: sum.splits option.splits if_splits)

lemma scenario_token_facts:
  "vault_tokens scenario_psp_db ''vt_1'' = Some scenario_token"
  "vt_status scenario_token = Active"
  "vt_allowance scenario_token = scenario_allowance"
  "max_amount scenario_allowance = 7148"
  "allowance_currency scenario_allowance = ''usd''"
  "expires_at scenario_allowance = 3600000"
  "reason scenario_allowance = ''one_time''"
  by (simp_all add: scenario_psp_db_def scenario_token_def scenario_allowance_def)

text \<open>The token of the scenario, charged 8000 in its currency and 7148 in another.\<close>

theorem payment_details_are_checked_before_the_insert_witness:
  "vault_tokens scenario_psp_db
       (cpi_shared_payment_token (call_request (call_a\<lparr>call_request := charge_7148\<lparr>cpi_amount := 8000\<rparr>\<rparr>)))
     = Some scenario_token
   \<and> vt_status scenario_token \<noteq> Consumed
   \<and> (\<exists>body. createAndProcessPaymentIntent
                 (call_a\<lparr>call_request := charge_7148\<lparr>cpi_amount := 8000\<rparr>\<rparr>) scenario_psp_db
               = (Inl (Thrown 400 body), scenario_psp_db)
             \<and> error_code body = Some ''amount_exceeds_allowance'')
   \<and> (\<exists>body. createAndProcessPaymentIntent
                 (call_a\<lparr>call_request := charge_7148\<lparr>cpi_currency := ''eur''\<rparr>\<rparr>) scenario_psp_db
               = (Inl (Thrown 400 body), scenario_psp_db)
             \<and> error_code body = Some ''currency_mismatch'')"
  using payment_details_are_checked_before_the_insert
          [where c = "call_a\<lparr>call_request := charge_7148\<lparr>cpi_amount := 8000\<rparr>\<rparr>"
             and db = scenario_psp_db and tok = scenario_token]
        payment_details_are_checked_before_the_insert
          [where c = "call_a\<lparr>call_request := charge_7148\<lparr>cpi_currency := ''eur''\<rparr>\<rparr>"
             and db = scenario_psp_db and tok = scenario_token]
  by (simp add: scenario_token_facts call_a_def charge_7148_def)

text \<open>
  A request whose currency differs from the allowance's and whose amount exceeds it is
  answered with \<^verbatim>\<open>amount_exceeds_allowance\<close>, not with \<^verbatim>\<open>currency_mismatch\<close>: the amount is
  checked first.
\<close>

theorem amount_and_currency_counterexample:
  "cpi_currency (call_request call_8000_eur) \<noteq> allowance_currency (vt_allowance scenario_token)
   \<and> vault_tokens scenario_psp_db (cpi_shared_payment_token (call_request call_8000_eur))
       = Some scenario_token
   \<and> (\<exists>body. createAndProcessPaymentIntent call_8000_eur scenario_psp_db
               = (Inl (Thrown 400 body), scenario_psp_db)
             \<and> error_code body = Some ''amount_exceeds_allowance''
             \<and> error_code body \<noteq> Some ''currency_mismatch'')"
  by (simp add: createAndProcessPaymentIntent_def validateVaultToken_def
      validatePaymentDetails_def error_code_error_object Let_def scenario_token_facts
      call_8000_eur_def)

lemma scenario_calls:
  "call_request call_a = charge_7148" "call_randomId call_a = ''a''" "call_now call_a = 1000"
  "call_completedAt call_a = 3000"
  "call_request call_b = charge_7148" "call_randomId call_b = ''b''" "call_now call_b = 1500"
  "call_completedAt call_b = 3500"
  "cpi_shared_payment_token charge_7148 = ''vt_1''" "cpi_amount charge_7148 = 7148"
  "cpi_currency charge_7148 = ''usd''" "cpi_merchant_id charge_7148 = None"
  "cpi_metadata charge_7148 = None"
  by (simp_all add: call_a_def call_b_def charge_7148_def)

text \<open>
  C1. A consumed token stays consumed (\<open>cpi_step_keeps_consumed\<close>,
  \<open>createVaultToken_keeps_consumed\<close>), and a call that finds its token consumed fails with
  \<^verbatim>\<open>vault_token_already_used\<close> and leaves the database as it was
  (\<open>consumed_token_rejected\<close>); a call that runs after a successful one is such a call
  (\<open>success_consumes_token\<close>, \<open>one_call_after_the_other\<close>), so calls that run one after the
  other complete at most one payment intent for a token
  (\<open>calls_in_sequence_spend_a_token_once\<close>). But the token is marked consumed only by the
  last statement of a call, two seconds after the check: a second call that starts before
  the first has finished passes the check as well, and both payment intents of the one
  token are completed.
\<close>

theorem two_calls_in_flight_spend_one_token_twice:
  "(case run_schedule [call_a, call_b] [0, 1, 0, 0, 0, 1, 1, 1]
           ([At_start, At_start], scenario_psp_db) of
      (pts, db) \<Rightarrow>
         pts = [Returned (Inr (cpi_response call_a)), Returned (Inr (cpi_response call_b))]
         \<and> pi_status (cpi_response call_a) = Completed
         \<and> pi_status (cpi_response call_b) = Completed
         \<and> completed_intents db ''vt_1'' = {''pi_a'', ''pi_b''})"
  by (auto simp add: cpi_step_def validateVaultToken_def validatePaymentDetails_def
      insert_payment_intent_def mark_payment_completed_def invalidateVaultToken_def
      scenario_token_facts scenario_calls Let_def completed_intents_def cpi_response_def
      scenario_psp_db_def truthy_def split: if_splits)

lemma one_call_after_the_other:
  "(case run_schedule [call_a, call_b] [0, 0, 0, 0, 1, 1, 1, 1]
           ([At_start, At_start], scenario_psp_db) of
      (pts, db) \<Rightarrow>
         pts = [Returned (Inr (cpi_response call_a)),
                Returned (Inl (Thrown 400 (error_object ''invalid_request''
                   ''vault_token_already_used'' ''Vault token has already been used''
                   (Some ''shared_payment_token''))))]
         \<and> completed_intents db ''vt_1'' = {''pi_a''})"
  by (auto simp add: cpi_step_def validateVaultToken_def validatePaymentDetails_def
      insert_payment_intent_def mark_payment_completed_def invalidateVaultToken_def
      scenario_token_facts scenario_calls Let_def completed_intents_def cpi_response_def
      scenario_psp_db_def truthy_def split: if_splits)


section \<open>PSP: the canonical form of a body\<close>

lemma sort_distinct_set_eq:
  fixes xs ys :: "string list"
  assumes "distinct xs" and "distinct ys" and "set xs = set ys"
  shows "sort xs = sort ys"
proof (rule sorted_distinct_set_unique)
  show "sorted (sort xs)" "sorted (sort ys)" by simp_all
  show "distinct (sort xs)" "distinct (sort ys)" using assms by simp_all
  show "set (sort xs) = set (sort ys)" using assms by simp
qed

lemma sorted_values_of_equiv:
  assumes "list_all2 (\<lambda>kv kv'. fst kv = fst kv' \<and> sortObject (snd kv) = sortObject (snd kv')) kvs ys"
  shows "map (\<lambda>kv. (fst kv, sortObject (snd kv))) kvs = map (\<lambda>kv. (fst kv, sortObject (snd kv))) ys"
  using assms by (induction rule: list_all2_induct) simp_all

lemma sortObject_object_eq:
  assumes d1: "distinct (map fst kvs)" and d2: "distinct (map fst kvs')"
    and m: "map (\<lambda>kv. (fst kv, sortObject (snd kv))) kvs
              = map (\<lambda>kv. (fst kv, sortObject (snd kv))) ys"
    and s: "set ys = set kvs'"
  shows "sortObject (JObject kvs) = sortObject (JObject kvs')"
proof -
  let ?f = "\<lambda>kv. (fst kv, sortObject (snd kv))"
  have keys: "map fst kvs = map fst ys"
    using arg_cong[OF m, of "map fst"] by (simp add: comp_def)
  then have d3: "distinct (map fst ys)" using d1 by simp
  have "set (map fst ys) = set (map fst kvs')" using s by simp
  then have sorted_keys: "sort (map fst kvs) = sort (map fst kvs')"
    unfolding keys using d3 d2 by (intro sort_distinct_set_eq) simp_all
  have "map_of (map ?f ys) = map_of (map ?f kvs')"
  proof (rule map_of_inject_set[THEN iffD2])
    show "distinct (map fst (map ?f ys))" using d3 by (simp add: comp_def)
    show "distinct (map fst (map ?f kvs'))" using d2 by (simp add: comp_def)
    show "set (map ?f ys) = set (map ?f kvs')" using s by simp
  qed
  then have "obj_get (map ?f kvs) = obj_get (map ?f kvs')"
    unfolding m by (intro ext) (simp add: obj_get_def)
  then show ?thesis by (simp add: sorted_keys)
qed

lemma sortObject_equiv: "json_equiv a b \<Longrightarrow> sortObject a = sortObject b"
proof (induction rule: json_equiv.induct)
  case (equiv_array xs ys)
  then have "map sortObject xs = map sortObject ys"
    by (induction rule: list_all2_induct) simp_all
  then show ?case by simp
next
  case (equiv_object kvs kvs' ys)
  have "list_all2 (\<lambda>kv kv'. fst kv = fst kv' \<and> sortObject (snd kv) = sortObject (snd kv')) kvs ys"
    using equiv_object.IH by (rule list_all2_mono) simp
  then have "map (\<lambda>kv. (fst kv, sortObject (snd kv))) kvs
               = map (\<lambda>kv. (fst kv, sortObject (snd kv))) ys"
    by (rule sorted_values_of_equiv)
  with equiv_object.hyps show ?case
    by (intro sortObject_object_eq)
qed simp_all

lemma bodies_equiv: "json_equiv body_a_b body_b_a"
  unfolding body_a_b_def body_b_a_def
  by (rule json_equiv.equiv_object[where ys = "[(''a'', JNumber 1), (''b'', JNumber 2)]"])
     (auto intro: json_equiv.intros)

lemma dec_digits_small: "n < 10 \<Longrightarrow> dec_digits n = [digit_char n]"
  by (simp add: dec_digits.simps)


lemma stringify_bodies:
  \<open>JSON_stringify body_a_b = ''{"a":1,"b":2}''\<close>
  \<open>JSON_stringify body_b_a = ''{"b":2,"a":1}''\<close>
  \<open>JSON_stringify body_a = ''{"a":1}''\<close>
  by (simp_all add: body_a_b_def body_b_a_def body_a_def quote_def escape_char_def show_int_def
      dec_digits_small digit_char_def Let_def)

lemma sortObject_bodies:
  "sortObject body_a_b = body_a_b" "sortObject body_b_a = body_a_b" "sortObject body_a = body_a"
  by (simp_all add: body_a_b_def body_b_a_def body_a_def obj_set_def obj_get_def)


text \<open>The digests of the three serializations.\<close>

lemma sha256_a_b:
  \<open>sha256 ''{"a":1,"b":2}'' = ''43258cff783fe7036d8a43033f830adfc60ec037382473548ac742b888292777''\<close>
  by code_simp

lemma sha256_b_a:
  \<open>sha256 ''{"b":2,"a":1}'' = ''3fb75453225c732a76b7899ea2096dda1455189c89817239732182f73fe5a09f''\<close>
  by code_simp

lemma sha256_a:
  \<open>sha256 ''{"a":1}'' = ''015abd7f5cc57a2dd94b7590f04ad8084273905ee33ec5cebeae62276a97f862''\<close>
  by code_simp

lemma hashes_of_bodies:
  "hashRequest body_a_b = ''43258cff783fe7036d8a43033f830adfc60ec037382473548ac742b888292777''"
  "hashRequest body_b_a = ''3fb75453225c732a76b7899ea2096dda1455189c89817239732182f73fe5a09f''"
  "generateRequestHash body_a_b = ''43258cff783fe7036d8a43033f830adfc60ec037382473548ac742b888292777''"
  "generateRequestHash body_b_a = ''43258cff783fe7036d8a43033f830adfc60ec037382473548ac742b888292777''"
  "generateRequestHash body_a = ''015abd7f5cc57a2dd94b7590f04ad8084273905ee33ec5cebeae62276a97f862''"
  by (simp_all only: hashRequest_def generateRequestHash_def Let_def sortObject_bodies
      stringify_bodies sha256_a_b sha256_b_a sha256_a)

section \<open>The idempotency layers\<close>



lemma check_other_body:
  "cache svc key = Some r \<Longrightarrow> \<not> ttlMs svc < now - timestamp r \<Longrightarrow>
   hashRequest body \<noteq> requestHash r \<Longrightarrow> check now key body svc = (Inl Request_not_idempotent, svc)"
  by (simp add: check_def Let_def)


lemma storeResponse_keeps_record:
  "idempotency_store db key = Some stored \<Longrightarrow> storeResponse key body st rb db = db"
  by (simp add: storeResponse_def Let_def)











lemma delegate_payment_replay:
  assumes "validate body = None"
    and "idempotency_store db key = Some stored"
    and "request_hash stored = generateRequestHash body"
  shows "delegate_payment validate decode randomId now key requestId body db
           = ((response_status stored, response_body stored), db)"
  using assms by (simp add: delegate_payment_def checkIdempotency_def Let_def)

lemma delegate_payment_conflict:
  assumes "validate body = None"
    and "idempotency_store db key = Some stored"
    and "request_hash stored \<noteq> generateRequestHash body"
  shows "delegate_payment validate decode randomId now key requestId body db
           = ((409, error_object ''idempotency_conflict'' ''idempotency_conflict''
                      ''Idempotency key used with different parameters'' None), db)"
  using assms by (simp add: delegate_payment_def checkIdempotency_def Let_def)


text \<open>
  C3, with the status of each service. A repeat of a key with a body whose hash differs
  from the stored one is answered by the merchant's middleware (for a record that has not
  expired) with status 400 and code \<^verbatim>\<open>request_not_idempotent\<close>, and by the PSP's
  \<^verbatim>\<open>delegate_payment\<close> (for a request that passes validation) with status 409 and code
  \<^verbatim>\<open>idempotency_conflict\<close>; neither answers with the stored response, neither runs the
  handler, both leave their store as it was, and \<^verbatim>\<open>storeResponse\<close> does not replace a
  record that exists.
\<close>

theorem same_key_other_body_is_a_conflict:
  assumes "cache svc key = Some r" and "\<not> ttlMs svc < now - timestamp r"
    and "hashRequest body \<noteq> requestHash r"
    and "validate pbody = None" and "idempotency_store db key = Some stored"
    and "request_hash stored \<noteq> generateRequestHash pbody"
  shows "handleIdempotency ''POST'' now sent key body handler (svc, s)
           = (\<lparr>resp_status = 400, resp_headers = [],
                resp_body = ErrorBody (error_object ''invalid_request'' ''request_not_idempotent''
                  ''Request body does not match previous request with same idempotency key''
                  (Some ''Idempotency-Key''))\<rparr>, svc, s)
         \<and> delegate_payment validate decode randomId pnow key requestId pbody db
             = ((409, error_object ''idempotency_conflict'' ''idempotency_conflict''
                        ''Idempotency key used with different parameters'' None), db)
         \<and> storeResponse key pbody st rb db = db"
  using assms
  by (simp add: handleIdempotency_def check_other_body delegate_payment_conflict
      storeResponse_keeps_record)

text \<open>
  C4, for the PSP. Two bodies that are equal as JSON values, the keys of their objects in
  any order, have the same \<^verbatim>\<open>generateRequestHash\<close>, so a retry with reordered keys matches
  the stored record and is answered with the stored response. (The merchant's
  \<^verbatim>\<open>hashRequest\<close> is the digest of \<^verbatim>\<open>JSON.stringify\<close> of the body as it came, see below.)
\<close>

theorem psp_hash_ignores_key_order:
  assumes "json_equiv b1 b2"
  shows "generateRequestHash b1 = generateRequestHash b2
         \<and> (validate b2 = None \<and> idempotency_store db key = Some stored
              \<and> request_hash stored = generateRequestHash b1 \<longrightarrow>
            delegate_payment validate decode randomId now key requestId b2 db
              = ((response_status stored, response_body stored), db))"
  using sortObject_equiv[OF assms]
  by (simp add: generateRequestHash_def delegate_payment_replay)

text \<open>The bodies \<^verbatim>\<open>{"a":1,"b":2}\<close> and \<^verbatim>\<open>{"b":2,"a":1}\<close>.\<close>

theorem psp_hash_ignores_key_order_witness:
  "json_equiv body_a_b body_b_a \<and> generateRequestHash body_a_b = generateRequestHash body_b_a"
  using psp_hash_ignores_key_order[OF bodies_equiv] bodies_equiv by simp

text \<open>
  For the merchant these two bodies have different hashes, and the second, sent with the
  key of the first, raises \<^verbatim>\<open>request_not_idempotent\<close>.
\<close>

theorem merchant_hash_depends_on_key_order:
  "json_equiv body_a_b body_b_a \<and> hashRequest body_a_b \<noteq> hashRequest body_b_a
   \<and> fst (check 1000 ''key-1'' body_b_a
             (save 0 ''key-1'' body_a_b 201 (Payload ()) [] new_IdempotencyService))
       = Inl Request_not_idempotent"
  by (simp add: bodies_equiv hashes_of_bodies check_def save_def new_IdempotencyService_def Let_def)










lemma scenario_saved_service_record:
  "cache scenario_saved_service ''key-1''
     = Some \<lparr>requestHash = hashRequest body_a_b, responseStatus = 201, responseBody = Payload (),
             responseHeaders = [], timestamp = 0\<rparr>"
  "ttlMs scenario_saved_service = 86400000"
  by (simp_all add: scenario_saved_service_def save_def new_IdempotencyService_def Let_def)

lemma scenario_delegate_a_result:
  "fst (fst scenario_delegate_a) = 201"
  "\<exists>rb. idempotency_store (snd scenario_delegate_a) ''key-1''
          = Some \<lparr>request_hash = generateRequestHash body_a, response_status = 201,
                  response_body = rb\<rparr>"
  by (simp_all add: scenario_delegate_a_def delegate_payment_def checkIdempotency_def
      empty_psp_db_def createVaultToken_def storeResponse_def Let_def)

text \<open>The bodies of the scenario against the records saved for other bodies.\<close>

theorem same_key_other_body_is_a_conflict_witness:
  "hashRequest body_b_a \<noteq> hashRequest body_a_b
   \<and> generateRequestHash body_a \<noteq> generateRequestHash body_a_b
   \<and> handleIdempotency ''POST'' 1000 1000 ''key-1'' body_b_a unit_handler
         (scenario_saved_service, ())
       = (\<lparr>resp_status = 400, resp_headers = [],
            resp_body = ErrorBody (error_object ''invalid_request'' ''request_not_idempotent''
              ''Request body does not match previous request with same idempotency key''
              (Some ''Idempotency-Key''))\<rparr>, scenario_saved_service, ())
   \<and> delegate_payment (\<lambda>body. None) scenario_decode_delegate ''2'' 1000 ''key-1'' ''req-2''
         body_a_b (snd scenario_delegate_a)
       = ((409, error_object ''idempotency_conflict'' ''idempotency_conflict''
                  ''Idempotency key used with different parameters'' None),
          snd scenario_delegate_a)"
proof -
  obtain rb where rb: "idempotency_store (snd scenario_delegate_a) ''key-1''
          = Some \<lparr>request_hash = generateRequestHash body_a, response_status = 201,
                  response_body = rb\<rparr>"
    using scenario_delegate_a_result(2) by blast
  show ?thesis
    using same_key_other_body_is_a_conflict
            [where svc = scenario_saved_service and key = "''key-1''" and now = 1000
               and body = body_b_a and validate = "\<lambda>body. None" and pbody = body_a_b
               and db = "snd scenario_delegate_a" and handler = unit_handler and s = "()"
               and sent = 1000 and decode = scenario_decode_delegate and randomId = "''2''"
               and pnow = 1000 and requestId = "''req-2''",
             OF scenario_saved_service_record(1) _ _ _ rb]
    by (simp add: scenario_saved_service_record hashes_of_bodies)
qed

text \<open>The merchant's answer to the conflict has the status 400, not 409.\<close>

theorem merchant_conflict_is_answered_400:
  "hashRequest body_b_a \<noteq> hashRequest body_a_b
   \<and> (\<exists>r. cache scenario_saved_service ''key-1'' = Some r
           \<and> requestHash r = hashRequest body_a_b)
   \<and> resp_status (fst (handleIdempotency ''POST'' 1000 1000 ''key-1'' body_b_a unit_handler
                         (scenario_saved_service, ()))) = 400"
  by (simp add: handleIdempotency_def check_def scenario_saved_service_record hashes_of_bodies
      Let_def)

end
